theory Spec2Isabelle
  imports Complex_Main
begin

section \<open>RAMP planner: the trajectory segment solver\<close>

text \<open>
  The embedding follows \<^verbatim>\<open>ramp_planner.py\<close>.  Python floats are modelled as
  real numbers: every arithmetic operation is exact and there is no rounding, no
  infinity and no NaN.  The model is faithful to the source wherever no divisor is
  zero; the places where the source divides by a quantity that may be zero are
  named where they occur.
\<close>

subsection \<open>Motion primitives and errors\<close>

text \<open>The four trajectory type strings \<^verbatim>\<open>'P+P-'\<close>, \<^verbatim>\<open>'P-P+'\<close>,
  \<^verbatim>\<open>'P+L+P-'\<close> and \<^verbatim>\<open>'P-L-P+'\<close>.\<close>

datatype primitive = PplusPminus | PminusPplus | PplusLplusPminus | PminusLminusPplus

text \<open>The exceptions that the planner's code can raise.\<close>

datatype py_error =
    NoValidResult        \<comment> \<open>\<^verbatim>\<open>ValueError("No valid result")\<close>\<close>
  | InvalidTrajectory    \<comment> \<open>\<^verbatim>\<open>ValueError("Invalid trajectory!")\<close>\<close>
  | InvalidPaths         \<comment> \<open>\<^verbatim>\<open>ValueError("Invalid paths: ...")\<close>\<close>
  | NoneArithmetic       \<comment> \<open>\<^verbatim>\<open>TypeError\<close>: arithmetic or comparison on \<^verbatim>\<open>None\<close>\<close>
  | EmptySequence        \<comment> \<open>\<^verbatim>\<open>IndexError\<close> of \<^verbatim>\<open>random.choice\<close>, \<^verbatim>\<open>ValueError\<close> of numpy and scipy on empty data\<close>
  | NotInList            \<comment> \<open>\<^verbatim>\<open>ValueError\<close> of \<^verbatim>\<open>list.remove\<close>\<close>
  | NoneAttribute        \<comment> \<open>\<^verbatim>\<open>AttributeError\<close>: attribute access on \<^verbatim>\<open>None\<close>\<close>
  | NegativeSamples      \<comment> \<open>\<^verbatim>\<open>ValueError\<close> of \<^verbatim>\<open>np.linspace\<close> on a negative number of samples\<close>
  | Nontermination       \<comment> \<open>not an exception: a loop of the source that never exits\<close>

subsection \<open>Quadratic equations\<close>

text \<open>\<^verbatim>\<open>solve_quadratic\<close>, the local helper of both solvers: the real solutions,
  the one with the positive square root first.\<close>

definition solve_quadratic :: "real \<Rightarrow> real \<Rightarrow> real \<Rightarrow> real list" where
  "solve_quadratic a b c =
     (let discriminant = b\<^sup>2 - 4 * a * c in
      if discriminant < 0 then []
      else [(- b + sqrt discriminant) / (2 * a), (- b - sqrt discriminant) / (2 * a)])"

subsection \<open>Time-optimal duration of one axis\<close>

text \<open>The four local functions of \<^verbatim>\<open>_univariate_time_optimal_interpolants\<close>.
  Each returns \<open>None\<close> where the source returns \<^verbatim>\<open>None\<close>; \<^verbatim>\<open>valid_t[0]\<close> is the
  first solution that passes the filter.\<close>

definition topt_p_plus_p_minus :: "real \<Rightarrow> real \<Rightarrow> real \<Rightarrow> real \<Rightarrow> real \<Rightarrow> real \<Rightarrow> real option" where
  "topt_p_plus_p_minus x1 x2 v1 v2 vmax amax =
     (let solutions = solve_quadratic amax (2 * v1) ((v1\<^sup>2 - v2\<^sup>2) / (2 * amax) + x1 - x2);
          valid_t = filter (\<lambda>t. max ((v2 - v1) / amax) 0 \<le> t \<and> t \<le> (vmax - v1) / amax) solutions
      in case valid_t of [] \<Rightarrow> None
         | t_p # _ \<Rightarrow> Some (2 * t_p + (v1 - v2) / amax))"

definition topt_p_minus_p_plus :: "real \<Rightarrow> real \<Rightarrow> real \<Rightarrow> real \<Rightarrow> real \<Rightarrow> real \<Rightarrow> real option" where
  "topt_p_minus_p_plus x1 x2 v1 v2 vmax amax =
     (let solutions = solve_quadratic amax (- 2 * v1) ((v1\<^sup>2 - v2\<^sup>2) / (2 * amax) + x2 - x1);
          valid_t = filter (\<lambda>t. max ((v1 - v2) / amax) 0 \<le> t \<and> t \<le> (vmax + v1) / amax) solutions
      in case valid_t of [] \<Rightarrow> None
         | t_p # _ \<Rightarrow> Some (2 * t_p + (v2 - v1) / amax))"

definition topt_p_plus_l_plus_p_minus :: "real \<Rightarrow> real \<Rightarrow> real \<Rightarrow> real \<Rightarrow> real \<Rightarrow> real \<Rightarrow> real option" where
  "topt_p_plus_l_plus_p_minus x1 x2 v1 v2 vmax amax =
     (let t_p1 = (vmax - v1) / amax;
          t_p2 = (vmax - v2) / amax;
          t_l = (v2\<^sup>2 + v1\<^sup>2 - 2 * vmax\<^sup>2) / (2 * vmax * amax) + (x2 - x1) / vmax
      in if t_p1 < 0 \<or> t_p2 < 0 \<or> t_l < 0 then None
         else Some (t_p1 + t_l + t_p2))"

definition topt_p_minus_l_plus_p_plus :: "real \<Rightarrow> real \<Rightarrow> real \<Rightarrow> real \<Rightarrow> real \<Rightarrow> real \<Rightarrow> real option" where
  "topt_p_minus_l_plus_p_plus x1 x2 v1 v2 vmax amax =
     (let t_p1 = (vmax + v1) / amax;
          t_p2 = (vmax + v2) / amax;
          t_l = (v2\<^sup>2 + v1\<^sup>2 - 2 * vmax\<^sup>2) / (2 * vmax * amax) - (x2 - x1) / vmax
      in if t_p1 < 0 \<or> t_p2 < 0 \<or> t_l < 0 then None
         else Some (t_p1 + t_l + t_p2))"

text \<open>The candidate durations in the order of the source, one per class.\<close>

definition time_candidates :: "real \<Rightarrow> real \<Rightarrow> real \<Rightarrow> real \<Rightarrow> real \<Rightarrow> real \<Rightarrow> real option list" where
  "time_candidates x1 x2 v1 v2 vmax amax =
     [topt_p_plus_p_minus x1 x2 v1 v2 vmax amax,
      topt_p_minus_p_plus x1 x2 v1 v2 vmax amax,
      topt_p_plus_l_plus_p_minus x1 x2 v1 v2 vmax amax,
      topt_p_minus_l_plus_p_plus x1 x2 v1 v2 vmax amax]"

text \<open>The comprehension \<^verbatim>\<open>[t for t in [...] if t is not None]\<close>.\<close>

fun not_none :: "'a option list \<Rightarrow> 'a list" where
  "not_none [] = []"
| "not_none (None # rs) = not_none rs"
| "not_none (Some r # rs) = r # not_none rs"

text \<open>\<^verbatim>\<open>np.min\<close> and Python's \<^verbatim>\<open>min\<close> of a list, given as its first element and
  the rest: both are only called on non-empty lists.\<close>

fun np_min :: "real \<Rightarrow> real list \<Rightarrow> real" where
  "np_min t [] = t"
| "np_min t (u # ts) = min t (np_min u ts)"

definition univariate_time_optimal_interpolants ::
  "real \<Rightarrow> real \<Rightarrow> real \<Rightarrow> real \<Rightarrow> real \<Rightarrow> real \<Rightarrow> real option" where
  "univariate_time_optimal_interpolants start_pos end_pos start_vel end_vel vmax amax =
     (let times = not_none (time_candidates start_pos end_pos start_vel end_vel vmax amax)
      in case times of [] \<Rightarrow> None | t # ts \<Rightarrow> Some (np_min t ts))"

subsection \<open>State evaluation on one axis\<close>

text \<open>\<^verbatim>\<open>_compute_trajectory_state\<close>: position and velocity at relative time \<open>t\<close>.
  The source divides by \<open>a\<close>; the model is the source for \<open>a \<noteq> 0\<close>.\<close>

definition compute_trajectory_state ::
  "real \<Rightarrow> real \<Rightarrow> real \<Rightarrow> real \<Rightarrow> real \<Rightarrow> real \<Rightarrow> real \<Rightarrow> primitive \<Rightarrow> real \<Rightarrow> real \<times> real" where
  "compute_trajectory_state x1 x2 v1 v2 a vmax T trajectory_type t =
     (case trajectory_type of
        PplusPminus \<Rightarrow>
          (let t_s = 0.5 * (T + (v2 - v1) / a) in
           if t \<le> t_s then (x1 + v1 * t + 0.5 * a * t\<^sup>2, v1 + a * t)
           else (let delta_t = t - t_s; v_peak = v1 + a * t_s in
                 (x1 + v1 * t_s + 0.5 * a * t_s\<^sup>2 + v_peak * delta_t - 0.5 * a * delta_t\<^sup>2,
                  v_peak - a * delta_t)))
      | PminusPplus \<Rightarrow>
          (let t_s = 0.5 * (T + (v1 - v2) / a) in
           if t \<le> t_s then (x1 + v1 * t - 0.5 * a * t\<^sup>2, v1 - a * t)
           else (let delta_t = t - t_s; v_valley = v1 - a * t_s in
                 (x1 + v1 * t_s - 0.5 * a * t_s\<^sup>2 + v_valley * delta_t + 0.5 * a * delta_t\<^sup>2,
                  v_valley + a * delta_t)))
      | PplusLplusPminus \<Rightarrow>
          (let t_p1 = (vmax - v1) / a; t_p2 = (vmax - v2) / a; t_l = T - t_p1 - t_p2 in
           if t \<le> t_p1 then (x1 + v1 * t + 0.5 * a * t\<^sup>2, v1 + a * t)
           else if t \<le> t_p1 + t_l then
             (let delta_t = t - t_p1 in
              (x1 + v1 * t_p1 + 0.5 * a * t_p1\<^sup>2 + vmax * delta_t, vmax))
           else (let delta_t = t - t_p1 - t_l in
                 (x1 + v1 * t_p1 + 0.5 * a * t_p1\<^sup>2 + vmax * t_l + vmax * delta_t
                    - 0.5 * a * delta_t\<^sup>2,
                  vmax - a * delta_t)))
      | PminusLminusPplus \<Rightarrow>
          (let t_p1 = (vmax + v1) / a; t_p2 = (vmax + v2) / a; t_l = T - t_p1 - t_p2 in
           if t \<le> t_p1 then (x1 + v1 * t - 0.5 * a * t\<^sup>2, v1 - a * t)
           else if t \<le> t_p1 + t_l then
             (let delta_t = t - t_p1 in
              (x1 + v1 * t_p1 - 0.5 * a * t_p1\<^sup>2 + (- vmax) * delta_t, - vmax))
           else (let delta_t = t - t_p1 - t_l in
                 (x1 + v1 * t_p1 - 0.5 * a * t_p1\<^sup>2 + (- vmax) * t_l + (- vmax) * delta_t
                    + 0.5 * a * delta_t\<^sup>2,
                  - vmax + a * delta_t))))"

subsection \<open>Minimum-acceleration primitive for a fixed duration\<close>

text \<open>The four local functions of \<^verbatim>\<open>_minimum_acceleration_interpolants\<close>.  The loop
  over the solutions keeps those that pass \<^verbatim>\<open>a <= 0: continue\<close> and the test on the
  switch time; \<^verbatim>\<open>min(valid_a)\<close> is \<open>np_min\<close>.  The source divides by \<open>T\<^sup>2\<close> in
  \<^verbatim>\<open>solve_quadratic\<close>, by \<open>a\<close>, and by \<open>T * vmax \<mp> (x2 - x1)\<close>.\<close>

definition macc_p_plus_p_minus ::
  "real \<Rightarrow> real \<Rightarrow> real \<Rightarrow> real \<Rightarrow> real \<Rightarrow> real \<Rightarrow> real \<Rightarrow> (real \<times> primitive) option" where
  "macc_p_plus_p_minus x1 x2 v1 v2 vmax T t_margin =
     (let solutions = solve_quadratic (T\<^sup>2) (2 * T * (v1 + v2) + 4 * (x1 - x2)) (- (v2 - v1)\<^sup>2);
          valid_a = filter (\<lambda>a. \<not> a \<le> 0 \<and>
                       (let t_s = 0.5 * (T + (v2 - v1) / a) in
                        0 < t_s \<and> t_s < T + t_margin \<and> \<bar>v1 + a * t_s\<bar> \<le> vmax)) solutions
      in case valid_a of [] \<Rightarrow> None | a # as \<Rightarrow> Some (np_min a as, PplusPminus))"

definition macc_p_minus_p_plus ::
  "real \<Rightarrow> real \<Rightarrow> real \<Rightarrow> real \<Rightarrow> real \<Rightarrow> real \<Rightarrow> real \<Rightarrow> (real \<times> primitive) option" where
  "macc_p_minus_p_plus x1 x2 v1 v2 vmax T t_margin =
     (let solutions = solve_quadratic (T\<^sup>2) (- 2 * T * (v1 + v2) - 4 * (x1 - x2)) (- (v2 - v1)\<^sup>2);
          valid_a = filter (\<lambda>a. \<not> a \<le> 0 \<and>
                       (let t_s = 0.5 * (T + (v1 - v2) / a) in
                        0 < t_s \<and> t_s < T + t_margin \<and> \<bar>v1 - a * t_s\<bar> \<le> vmax)) solutions
      in case valid_a of [] \<Rightarrow> None | a # as \<Rightarrow> Some (np_min a as, PminusPplus))"

definition macc_p_plus_l_plus_p_minus ::
  "real \<Rightarrow> real \<Rightarrow> real \<Rightarrow> real \<Rightarrow> real \<Rightarrow> real \<Rightarrow> (real \<times> primitive) option" where
  "macc_p_plus_l_plus_p_minus x1 x2 v1 v2 vmax T =
     (let a = (vmax\<^sup>2 - vmax * (v1 + v2) + 0.5 * (v1\<^sup>2 + v2\<^sup>2)) / (T * vmax - (x2 - x1)) in
      if a \<le> 0 then None
      else (let t_p1 = (vmax - v1) / a; t_p2 = (vmax - v2) / a; t_l = T - t_p1 - t_p2 in
            if t_p1 < 0 \<or> t_p2 < 0 \<or> t_l < 0 then None
            else Some (a, PplusLplusPminus)))"

definition macc_p_minus_l_minus_p_plus ::
  "real \<Rightarrow> real \<Rightarrow> real \<Rightarrow> real \<Rightarrow> real \<Rightarrow> real \<Rightarrow> (real \<times> primitive) option" where
  "macc_p_minus_l_minus_p_plus x1 x2 v1 v2 vmax T =
     (let a = (vmax\<^sup>2 + vmax * (v1 + v2) + 0.5 * (v1\<^sup>2 + v2\<^sup>2)) / (T * vmax + (x2 - x1)) in
      if a \<le> 0 then None
      else (let t_p1 = (vmax + v1) / a; t_p2 = (vmax + v2) / a; t_l = T - t_p1 - t_p2 in
            if t_p1 < 0 \<or> t_p2 < 0 \<or> t_l < 0 then None
            else Some (a, PminusLminusPplus)))"

text \<open>The list \<^verbatim>\<open>results\<close>, in the order of the source.\<close>

definition acc_candidates ::
  "real \<Rightarrow> real \<Rightarrow> real \<Rightarrow> real \<Rightarrow> real \<Rightarrow> real \<Rightarrow> real \<Rightarrow> (real \<times> primitive) option list" where
  "acc_candidates x1 x2 v1 v2 vmax T t_margin =
     [macc_p_plus_p_minus x1 x2 v1 v2 vmax T t_margin,
      macc_p_minus_p_plus x1 x2 v1 v2 vmax T t_margin,
      macc_p_plus_l_plus_p_minus x1 x2 v1 v2 vmax T,
      macc_p_minus_l_minus_p_plus x1 x2 v1 v2 vmax T]"

text \<open>\<^verbatim>\<open>min(valid_results, key=lambda x: x[0])\<close>: the first element whose key is
  minimal.\<close>

fun min_by_key :: "real \<times> 'a \<Rightarrow> (real \<times> 'a) list \<Rightarrow> real \<times> 'a" where
  "min_by_key r [] = r"
| "min_by_key r (s # rs) = (let m = min_by_key s rs in if fst r \<le> fst m then r else m)"

text \<open>\<^verbatim>\<open>np.clip(a, lo, hi)\<close>.\<close>

definition np_clip :: "real \<Rightarrow> real \<Rightarrow> real \<Rightarrow> real" where
  "np_clip a lo hi = min (max a lo) hi"

text \<open>\<^verbatim>\<open>_minimum_acceleration_interpolants\<close>.  The bound \<^verbatim>\<open>self.amax[dim]\<close> is the
  parameter \<open>amax\<close>; \<open>t_margin\<close> and \<open>a_margin\<close> are the keyword parameters, whose
  defaults are \<open>default_t_margin\<close> and \<open>default_a_margin\<close>.  The result is
  \<open>Inl e\<close> when the source raises, \<open>Inr None\<close> when it returns \<^verbatim>\<open>None\<close>.\<close>

definition default_t_margin :: real where "default_t_margin = 1 / 10000"
definition default_a_margin :: real where "default_a_margin = 1 / 1000000"
definition default_safe_margin :: real where "default_safe_margin = 1 / 1000000"

definition minimum_acceleration_interpolants ::
  "real \<Rightarrow> real \<Rightarrow> real \<Rightarrow> real \<Rightarrow> real \<Rightarrow> real \<Rightarrow> real \<Rightarrow> real \<Rightarrow> real
     \<Rightarrow> py_error + (real \<times> primitive) option" where
  "minimum_acceleration_interpolants start_pos end_pos start_vel end_vel vmax T amax t_margin a_margin =
     (let valid_results = not_none (acc_candidates start_pos end_pos start_vel end_vel vmax T t_margin)
      in case valid_results of
           [] \<Rightarrow> Inl NoValidResult
         | r # rs \<Rightarrow>
             (let (a_min, selected_primitive) = min_by_key r rs in
              if a_min \<le> amax + a_margin
              then Inr (Some (np_clip a_min 0 amax, selected_primitive))
              else Inr None))"

section \<open>RAMP planner: nodes, trees and the planner object\<close>

subsection \<open>Data model\<close>

datatype tree_type = Forward | Backward

text \<open>The class \<^verbatim>\<open>Node\<close>.  A node object is identified by its index in the list
  \<open>nodes\<close> of the planner below, so \<open>parent\<close> and \<open>children\<close> hold indices, and the
  identity tests of the source (\<^verbatim>\<open>is\<close>, \<^verbatim>\<open>list.remove\<close>) compare indices.  The
  \<^verbatim>\<open>uuid\<close> is only read by the plotting code and is left out.\<close>

record node =
  state :: "real list"
  tree_type :: tree_type
  parent :: "nat option"
  segment_time :: "real option"
  trajectory_info :: "(real \<times> primitive) list option"
  children :: "nat list"

definition Node ::
  "real list \<Rightarrow> tree_type \<Rightarrow> nat option \<Rightarrow> real option \<Rightarrow> (real \<times> primitive) list option \<Rightarrow> node" where
  "Node st ty par seg info =
     \<lparr>state = st, tree_type = ty, parent = par, segment_time = seg, trajectory_info = info,
      children = []\<rparr>"

text \<open>The class \<^verbatim>\<open>RampPlanner\<close>, without its plotting attributes.  \<open>nodes\<close> is the
  store of all node objects created so far; \<open>start\<close> and \<open>goal\<close> are the indices of the two
  seed nodes.\<close>

record ramp_planner =
  nodes :: "node list"
  start :: nat
  goal :: nat
  forward_tree :: "nat list"
  backward_tree :: "nat list"
  max_iters :: nat
  collision_checker :: "real list \<Rightarrow> bool"
  position_limits :: "real list \<times> real list"
  vmax :: "real list"
  amax :: "real list"

definition dimension :: "ramp_planner \<Rightarrow> nat" where
  "dimension self = length (vmax self)"

text \<open>\<^verbatim>\<open>init_weights\<close>.  The source divides by the squared position range and by the
  squared double of \<open>vmax\<close>.\<close>

definition weights :: "ramp_planner \<Rightarrow> real list" where
  "weights self =
     (let (lo, hi) = position_limits self in
      map (\<lambda>(h, l). 1 / (h - l)\<^sup>2) (zip hi lo) @ map (\<lambda>v. 1 / (v * 2)\<^sup>2) (vmax self))"

text \<open>\<^verbatim>\<open>RampPlanner.__init__\<close>: the two seed nodes and two empty trees.\<close>

definition init_planner ::
  "real list \<Rightarrow> real list \<Rightarrow> nat \<Rightarrow> (real list \<Rightarrow> bool) \<Rightarrow> real list \<times> real list \<Rightarrow> real list \<Rightarrow> real list
     \<Rightarrow> ramp_planner" where
  "init_planner start_state goal_state iters checker limits vm am =
     \<lparr>nodes = [Node start_state Forward None None None, Node goal_state Backward None None None],
      start = 0, goal = 1, forward_tree = [], backward_tree = [],
      max_iters = iters, collision_checker = checker, position_limits = limits,
      vmax = vm, amax = am\<rparr>"

text \<open>The tree list that a variable \<^verbatim>\<open>tree\<close> of the source refers to, and its update.\<close>

fun other_tree :: "tree_type \<Rightarrow> tree_type" where
  "other_tree Forward = Backward"
| "other_tree Backward = Forward"

fun tree_of :: "ramp_planner \<Rightarrow> tree_type \<Rightarrow> nat list" where
  "tree_of self Forward = forward_tree self"
| "tree_of self Backward = backward_tree self"

fun tree_update :: "tree_type \<Rightarrow> (nat list \<Rightarrow> nat list) \<Rightarrow> ramp_planner \<Rightarrow> ramp_planner" where
  "tree_update Forward f self = self\<lparr>forward_tree := f (forward_tree self)\<rparr>"
| "tree_update Backward f self = self\<lparr>backward_tree := f (backward_tree self)\<rparr>"

text \<open>Reading and updating one node object of the store.\<close>

definition node_at :: "ramp_planner \<Rightarrow> nat \<Rightarrow> node" where
  "node_at self i = nodes self ! i"

definition node_update :: "nat \<Rightarrow> (node \<Rightarrow> node) \<Rightarrow> ramp_planner \<Rightarrow> ramp_planner" where
  "node_update i f self = self\<lparr>nodes := (nodes self)[i := f (nodes self ! i)]\<rparr>"

text \<open>Creating a node object: it gets the next free index.\<close>

definition alloc_node :: "node \<Rightarrow> ramp_planner \<Rightarrow> nat \<times> ramp_planner" where
  "alloc_node nd self = (length (nodes self), self\<lparr>nodes := nodes self @ [nd]\<rparr>)"

subsection \<open>State evaluation and edge validation\<close>

text \<open>\<^verbatim>\<open>_get_state_in_segment\<close>.  A state vector of length \<open>2 * n\<close> holds the positions
  first and the velocities last (\<^verbatim>\<open>reshape(2, n)\<close>).\<close>

definition get_state_in_segment ::
  "ramp_planner \<Rightarrow> real list \<Rightarrow> real list \<Rightarrow> real \<Rightarrow> (real \<times> primitive) list \<Rightarrow> real
     \<Rightarrow> real list \<times> real list" where
  "get_state_in_segment self start_state end_state seg_time segment_trajectory t =
     (let n = dimension self;
          per_dim = map (\<lambda>dim.
             (let (acc, trajectory_type) = segment_trajectory ! dim;
                  x1 = start_state ! dim; x2 = end_state ! dim;
                  v1 = start_state ! (n + dim); v2 = end_state ! (n + dim)
              in compute_trajectory_state x1 x2 v1 v2 acc (vmax self ! dim) seg_time
                   trajectory_type t)) [0..<n]
      in (map fst per_dim, map snd per_dim))"

text \<open>\<^verbatim>\<open>int(x)\<close> on a float truncates towards zero.\<close>

definition py_int :: "real \<Rightarrow> int" where
  "py_int x = (if 0 \<le> x then \<lfloor>x\<rfloor> else \<lceil>x\<rceil>)"

text \<open>\<^verbatim>\<open>np.linspace(0, stop, num)\<close>: \<open>num\<close> evenly spaced samples from 0 to \<open>stop\<close>, both
  included; the single sample 0 when \<open>num = 1\<close>.\<close>

definition linspace :: "real \<Rightarrow> nat \<Rightarrow> real list" where
  "linspace stop num =
     (if num = 1 then [0]
      else map (\<lambda>i. real i * (stop / real (num - 1))) [0..<num])"

text \<open>The loop of \<^verbatim>\<open>_check_edge_collision\<close> over the sampled times: it returns at the
  first position that the collision predicate rejects.\<close>

fun check_samples :: "(real list \<Rightarrow> bool) \<Rightarrow> (real \<Rightarrow> real list) \<Rightarrow> real list \<Rightarrow> bool" where
  "check_samples checker position_at [] = True"
| "check_samples checker position_at (t # ts) =
     (if \<not> checker (position_at t) then False else check_samples checker position_at ts)"

definition default_time_step :: real where "default_time_step = 1 / 100"

text \<open>\<^verbatim>\<open>_check_edge_collision\<close>.  The arguments \<open>seg_time\<close> and \<open>info\<close> may be
  \<^verbatim>\<open>None\<close> in the source (the attributes of a root); arithmetic on \<^verbatim>\<open>None\<close> raises.\<close>

definition check_edge_collision ::
  "ramp_planner \<Rightarrow> nat \<Rightarrow> nat \<Rightarrow> real option \<Rightarrow> (real \<times> primitive) list option \<Rightarrow> real
     \<Rightarrow> py_error + bool" where
  "check_edge_collision self start_node end_node seg_time info time_step =
     (case seg_time of
        None \<Rightarrow> Inl NoneArithmetic
      | Some T \<Rightarrow>
          if T = 0 then Inr True
          else (let num_samples = py_int (T / time_step) + 1 in
                if num_samples < 0 then Inl NegativeSamples
                else (let times = linspace T (nat num_samples) in
                      if times = [] then Inr True
                      else (case info of
                              None \<Rightarrow> Inl NoneArithmetic
                            | Some segment_trajectory \<Rightarrow>
                                Inr (check_samples (collision_checker self)
                                  (\<lambda>t. fst (get_state_in_segment self
                                     (state (node_at self start_node))
                                     (state (node_at self end_node)) T segment_trajectory t))
                                  times)))))"

subsection \<open>Segments between two states\<close>

text \<open>\<^verbatim>\<open>np.max\<close> of a non-empty list, given as its first element and the rest.\<close>

fun np_max :: "real \<Rightarrow> real list \<Rightarrow> real" where
  "np_max t [] = t"
| "np_max t (u # ts) = max t (np_max u ts)"

text \<open>\<^verbatim>\<open>_calculate_segment_time\<close>.  When an axis has no time-optimal primitive the
  list holds \<^verbatim>\<open>None\<close>, and \<^verbatim>\<open>np.max(...) + safe_margin\<close> raises a \<^verbatim>\<open>TypeError\<close>.\<close>

definition calculate_segment_time ::
  "ramp_planner \<Rightarrow> real list \<Rightarrow> real list \<Rightarrow> real \<Rightarrow> py_error + real" where
  "calculate_segment_time self start_state end_state safe_margin =
     (let n = dimension self;
          t_requireds = map (\<lambda>dim.
             univariate_time_optimal_interpolants (start_state ! dim) (end_state ! dim)
               (start_state ! (n + dim)) (end_state ! (n + dim))
               (vmax self ! dim) (amax self ! dim)) [0..<n]
      in if None \<in> set t_requireds then Inl NoneArithmetic
         else (case not_none t_requireds of
                 [] \<Rightarrow> Inl EmptySequence
               | t # ts \<Rightarrow> Inr (np_max t ts + safe_margin)))"

text \<open>A list comprehension whose elements may raise: the first exception ends it.\<close>

fun first_error :: "('e + 'a) list \<Rightarrow> 'e + 'a list" where
  "first_error [] = Inr []"
| "first_error (Inl e # rs) = Inl e"
| "first_error (Inr r # rs) = (case first_error rs of Inl e \<Rightarrow> Inl e | Inr xs \<Rightarrow> Inr (r # xs))"

text \<open>\<^verbatim>\<open>_calculate_segment_trajectory\<close>: \<open>Inr None\<close> when an axis returns \<^verbatim>\<open>None\<close>.\<close>

definition calculate_segment_trajectory ::
  "ramp_planner \<Rightarrow> real list \<Rightarrow> real list \<Rightarrow> real \<Rightarrow> py_error + (real \<times> primitive) list option" where
  "calculate_segment_trajectory self start_state end_state seg_time =
     (let n = dimension self in
      case first_error (map (\<lambda>dim.
             minimum_acceleration_interpolants (start_state ! dim) (end_state ! dim)
               (start_state ! (n + dim)) (end_state ! (n + dim))
               (vmax self ! dim) seg_time (amax self ! dim)
               default_t_margin default_a_margin) [0..<n]) of
        Inl e \<Rightarrow> Inl e
      | Inr trajectory_data \<Rightarrow>
          if None \<in> set trajectory_data then Inr None
          else Inr (Some (not_none trajectory_data)))"

text \<open>\<^verbatim>\<open>_compute_optimal_segment\<close>.\<close>

definition compute_optimal_segment ::
  "ramp_planner \<Rightarrow> real list \<Rightarrow> real list \<Rightarrow> py_error + real \<times> (real \<times> primitive) list" where
  "compute_optimal_segment self start_state end_state =
     (case calculate_segment_time self start_state end_state default_safe_margin of
        Inl e \<Rightarrow> Inl e
      | Inr seg_time \<Rightarrow>
          (case calculate_segment_trajectory self start_state end_state seg_time of
             Inl e \<Rightarrow> Inl e
           | Inr None \<Rightarrow> Inl InvalidTrajectory
           | Inr (Some segment_trajectory) \<Rightarrow> Inr (seg_time, segment_trajectory)))"

subsection \<open>Seeding\<close>

text \<open>\<^verbatim>\<open>_check_state_limits\<close>.\<close>

definition check_state_limits :: "ramp_planner \<Rightarrow> real list \<Rightarrow> bool" where
  "check_state_limits self st =
     (let (pos_min, pos_max) = position_limits self in
      list_all (\<lambda>(p, lo, hi). lo \<le> p \<and> p \<le> hi)
        (zip (take (dimension self) st) (zip pos_min pos_max)))"

text \<open>\<^verbatim>\<open>generate_max_braking_trajectory\<close>: \<open>Inr None\<close> stands for the result
  \<^verbatim>\<open>(None, None, None)\<close>.  The source divides by \<open>amax\<close>.\<close>

definition generate_max_braking_trajectory ::
  "ramp_planner \<Rightarrow> real list \<Rightarrow> py_error + (real list \<times> real \<times> (real \<times> primitive) list) option" where
  "generate_max_braking_trajectory self st =
     (let pos_dim = dimension self;
          position = take pos_dim st;
          velocity = drop pos_dim st;
          acceleration_times = map (\<lambda>(v, a). \<bar>v\<bar> / a) (zip velocity (amax self))
      in case acceleration_times of
           [] \<Rightarrow> Inl EmptySequence
         | t # ts \<Rightarrow>
             (let t_max = np_max t ts;
                  per_dim = map (\<lambda>i.
                     if t_max > 0 then
                       (let a = velocity ! i / t_max;
                            delta_p = - 0.5 * a * t_max\<^sup>2
                        in (position ! i + delta_p, (\<bar>a\<bar>, PplusPminus)))
                     else (position ! i, (0, PplusPminus))) [0..<pos_dim];
                  initial_state = map fst per_dim @ map (\<lambda>_. 0) velocity
              in if \<not> check_state_limits self initial_state then Inr None
                 else if \<not> collision_checker self initial_state then Inr None
                 else Inr (Some (initial_state, t_max, map snd per_dim))))"

text \<open>One round of the loop of \<^verbatim>\<open>seed_trees\<close>, for the tree \<open>ty\<close> and its seed node.
  The boolean is \<open>False\<close> when the round executes \<^verbatim>\<open>return False\<close>.  When
  \<^verbatim>\<open>initial_state\<close> is \<^verbatim>\<open>None\<close> the body of the \<^verbatim>\<open>if\<close> is skipped and the loop goes on.\<close>

definition seed_tree :: "ramp_planner \<Rightarrow> tree_type \<Rightarrow> nat \<Rightarrow> py_error + bool \<times> ramp_planner" where
  "seed_tree self ty seed_node =
     (case generate_max_braking_trajectory self (state (node_at self seed_node)) of
        Inl e \<Rightarrow> Inl e
      | Inr None \<Rightarrow> Inr (True, self)
      | Inr (Some (initial_state, seg_time, info)) \<Rightarrow>
          (let (new_node, self1) = alloc_node (Node initial_state ty None None None) self;
               self2 = tree_update ty (\<lambda>tree. tree @ [new_node]) self1;
               self3 = node_update seed_node
                         (\<lambda>nd. nd\<lparr>segment_time := Some seg_time, trajectory_info := Some info\<rparr>) self2
           in case check_edge_collision self3 new_node seed_node (Some seg_time) (Some info)
                     default_time_step of
                Inl e \<Rightarrow> Inl e
              | Inr free \<Rightarrow> Inr (free, self3)))"

text \<open>\<^verbatim>\<open>seed_trees\<close>: the forward tree from the start node, then the backward tree from
  the goal node; the result is \<open>True\<close> unless a round returned \<open>False\<close>.\<close>

definition seed_trees :: "ramp_planner \<Rightarrow> py_error + bool \<times> ramp_planner" where
  "seed_trees self =
     (case seed_tree self Forward (start self) of
        Inl e \<Rightarrow> Inl e
      | Inr (False, self1) \<Rightarrow> Inr (False, self1)
      | Inr (True, self1) \<Rightarrow> seed_tree self1 Backward (goal self1))"

subsection \<open>Extension\<close>

text \<open>The two random draws of \<^verbatim>\<open>extend_tree\<close> are arguments of the model:
  \<^verbatim>\<open>random.choice(tree)\<close> picks the element at a drawn index and raises on an empty list;
  \<^verbatim>\<open>np.random.uniform(min_pos, max_pos)\<close> is \<open>lo + (hi - lo) * us i\<close> on axis \<open>i\<close>, for
  drawn numbers \<open>us i\<close> in \<open>[0, 1)\<close>.\<close>

definition random_choice :: "nat \<Rightarrow> 'a list \<Rightarrow> py_error + 'a" where
  "random_choice k xs = (if xs = [] then Inl EmptySequence else Inr (xs ! (k mod length xs)))"

text \<open>\<^verbatim>\<open>_sample_free_space_state\<close>.\<close>

definition sample_free_space_state :: "ramp_planner \<Rightarrow> (nat \<Rightarrow> real) \<Rightarrow> real list" where
  "sample_free_space_state self us =
     (let pos_dim = dimension self;
          (pos_min, pos_max) = position_limits self;
          random_position = map (\<lambda>i. pos_min ! i + (pos_max ! i - pos_min ! i) * us i)
                              [0..<length pos_min];
          zero_velocity = replicate pos_dim 0
      in random_position @ zero_velocity)"

text \<open>\<^verbatim>\<open>extend_tree\<close>, for the tree list \<open>ty\<close>: the new node, or \<open>None\<close> when the sampled
  state is in collision.\<close>

definition extend_tree ::
  "ramp_planner \<Rightarrow> tree_type \<Rightarrow> nat \<Rightarrow> (nat \<Rightarrow> real) \<Rightarrow> py_error + nat option \<times> ramp_planner" where
  "extend_tree self ty k us =
     (case random_choice k (tree_of self ty) of
        Inl e \<Rightarrow> Inl e
      | Inr sampled_node \<Rightarrow>
          (let random_state = sample_free_space_state self us in
           if \<not> collision_checker self random_state then Inr (None, self)
           else (case compute_optimal_segment self (state (node_at self sampled_node)) random_state of
                   Inl e \<Rightarrow> Inl e
                 | Inr (seg_time, info) \<Rightarrow>
                     (let (new_node, self1) =
                            alloc_node (Node random_state (tree_type (node_at self sampled_node))
                              (Some sampled_node) (Some seg_time) (Some info)) self;
                          self2 = tree_update ty (\<lambda>tree. tree @ [new_node]) self1;
                          self3 = node_update sampled_node
                                    (\<lambda>nd. nd\<lparr>children := children nd @ [new_node]\<rparr>) self2
                      in Inr (Some new_node, self3)))))"

subsection \<open>Connection\<close>

text \<open>The first index of a smallest element of a non-empty list.\<close>

fun argmin_from :: "nat \<Rightarrow> real \<Rightarrow> nat \<Rightarrow> real list \<Rightarrow> nat" where
  "argmin_from best d i [] = best"
| "argmin_from best d i (x # xs) =
     (if x < d then argmin_from i x (Suc i) xs else argmin_from best d (Suc i) xs)"

text \<open>\<^verbatim>\<open>_find_nearest_node\<close>.  The nearest-neighbour query of scipy's \<^verbatim>\<open>KDTree\<close> is
  modelled by a linear search for the smallest Euclidean distance between the weighted
  states (the first such node among equals); building a \<^verbatim>\<open>KDTree\<close> on no data raises.\<close>

definition find_nearest_node :: "ramp_planner \<Rightarrow> nat list \<Rightarrow> nat \<Rightarrow> py_error + nat \<times> real" where
  "find_nearest_node self tree target_node =
     (let w = map sqrt (weights self);
          weighted = (\<lambda>st. map (\<lambda>(x, y). x * y) (zip st w));
          weighted_target_node_state = weighted (state (node_at self target_node));
          distances = map (\<lambda>i. sqrt (sum_list (map (\<lambda>(x, y). (x - y)\<^sup>2)
                        (zip (weighted (state (node_at self i))) weighted_target_node_state)))) tree
      in case distances of
           [] \<Rightarrow> Inl EmptySequence
         | d # ds \<Rightarrow>
             (let nearest_index = argmin_from 0 d 1 ds in
              Inr (tree ! nearest_index, distances ! nearest_index)))"

text \<open>\<^verbatim>\<open>_trace_path\<close>: the loop follows the parent links until it meets \<^verbatim>\<open>None\<close>.
  \<open>trace_up\<close> runs it for at most \<open>fuel\<close> nodes, with the path collected so far (already
  in root-first order); \<open>None\<close> means that the fuel ran out.  A chain of parent links
  without a repeated node visits at most \<open>length (nodes self)\<close> nodes, so with that much
  fuel \<open>None\<close> is returned exactly when the loop of the source never exits.\<close>

fun trace_up :: "nat \<Rightarrow> ramp_planner \<Rightarrow> nat \<Rightarrow> nat list \<Rightarrow> nat list option" where
  "trace_up 0 self current_node path = None"
| "trace_up (Suc fuel) self current_node path =
     (case parent (node_at self current_node) of
        None \<Rightarrow> Some (current_node # path)
      | Some p \<Rightarrow> trace_up fuel self p (current_node # path))"

definition trace_path :: "ramp_planner \<Rightarrow> nat \<Rightarrow> py_error + nat list" where
  "trace_path self node_id =
     (case trace_up (length (nodes self)) self node_id [] of
        None \<Rightarrow> Inl Nontermination
      | Some path \<Rightarrow> Inr path)"

definition default_epsilon :: real where "default_epsilon = 1 / 10"

text \<open>\<^verbatim>\<open>connect_trees\<close>, on the tree list \<open>ty\<close>.\<close>

definition connect_trees ::
  "ramp_planner \<Rightarrow> tree_type \<Rightarrow> nat \<Rightarrow> real \<Rightarrow> py_error + (nat list \<times> nat list) option" where
  "connect_trees self ty node_id epsilon =
     (case find_nearest_node self (tree_of self ty) node_id of
        Inl e \<Rightarrow> Inl e
      | Inr (nearest_node, distance) \<Rightarrow>
          if distance > epsilon then Inr None
          else (case trace_path self nearest_node of
                  Inl e \<Rightarrow> Inl e
                | Inr path1 \<Rightarrow>
                    (case trace_path self node_id of
                       Inl e \<Rightarrow> Inl e
                     | Inr path2 \<Rightarrow> Inr (Some (path1, path2)))))"

subsection \<open>Lazy validation\<close>

text \<open>\<^verbatim>\<open>_check_path_collision\<close>: the first edge of the path that is not free.\<close>

fun check_path_collision :: "ramp_planner \<Rightarrow> nat list \<Rightarrow> py_error + (nat \<times> nat) option" where
  "check_path_collision self (start_node # end_node # rest) =
     (case check_edge_collision self start_node end_node (segment_time (node_at self end_node))
             (trajectory_info (node_at self end_node)) default_time_step of
        Inl e \<Rightarrow> Inl e
      | Inr False \<Rightarrow> Inr (Some (start_node, end_node))
      | Inr True \<Rightarrow> check_path_collision self (end_node # rest))"
| "check_path_collision self path = Inr None"

text \<open>\<^verbatim>\<open>_connect_paths\<close>.  Both paths are non-empty: they come from \<^verbatim>\<open>_trace_path\<close>.\<close>

definition connect_paths :: "ramp_planner \<Rightarrow> nat list \<Rightarrow> nat list \<Rightarrow> py_error + nat list" where
  "connect_paths self path1 path2 =
     (let ty1 = tree_type (node_at self (hd path1)); ty2 = tree_type (node_at self (hd path2)) in
      if ty1 = Forward \<and> ty2 = Backward \<or> ty2 = Forward \<and> ty1 = Backward then
        (let combined_path = (if ty1 = Forward \<and> ty2 = Backward then path1 @ rev path2
                              else path2 @ rev path1);
             combined_path1 =
               (if state (node_at self (start self)) \<noteq> state (node_at self (hd combined_path))
                then start self # combined_path else combined_path);
             combined_path2 =
               (if state (node_at self (goal self)) \<noteq> state (node_at self (last combined_path1))
                then combined_path1 @ [goal self] else combined_path1)
         in Inr combined_path2)
      else Inl InvalidPaths)"

text \<open>The two kinds of result of \<^verbatim>\<open>_check_paths_collision\<close>: the connected path (a
  list in the source), or the tuple of the offending edge and the two bridge nodes.\<close>

datatype check_result = Connected "nat list" | Infeasible "nat \<times> nat \<times> nat \<times> nat"

definition check_paths_collision ::
  "ramp_planner \<Rightarrow> nat list \<times> nat list \<Rightarrow> py_error + check_result" where
  "check_paths_collision self paths =
     (let (path1, path2) = paths;
          bridge_start = last path1; bridge_end = last path2
      in case check_path_collision self path1 of
           Inl e \<Rightarrow> Inl e
         | Inr (Some (s, c)) \<Rightarrow> Inr (Infeasible (s, c, bridge_start, bridge_end))
         | Inr None \<Rightarrow>
             (case check_path_collision self path2 of
                Inl e \<Rightarrow> Inl e
              | Inr (Some (s, c)) \<Rightarrow> Inr (Infeasible (s, c, bridge_start, bridge_end))
              | Inr None \<Rightarrow>
                  (case compute_optimal_segment self (state (node_at self bridge_start))
                          (state (node_at self bridge_end)) of
                     Inl e \<Rightarrow> Inl e
                   | Inr (seg_time, info) \<Rightarrow>
                       (case check_edge_collision self bridge_start bridge_end (Some seg_time)
                               (Some info) default_time_step of
                          Inl e \<Rightarrow> Inl e
                        | Inr False \<Rightarrow>
                            Inr (Infeasible (bridge_start, bridge_end, bridge_start, bridge_end))
                        | Inr True \<Rightarrow>
                            (case connect_paths self path1 path2 of
                               Inl e \<Rightarrow> Inl e
                             | Inr path \<Rightarrow> Inr (Connected path))))))"

subsection \<open>Path reconstruction and smoothing\<close>

text \<open>The loop of \<^verbatim>\<open>reconstruct_path\<close>: \<open>prev\<close> is the copy made in the previous
  round (\<^verbatim>\<open>reconstructed_path[-1]\<close>, absent in the first round), \<open>acc\<close> the copies so far.\<close>

fun reconstruct_from ::
  "ramp_planner \<Rightarrow> nat option \<Rightarrow> nat list \<Rightarrow> nat list \<Rightarrow> py_error + nat list \<times> ramp_planner" where
  "reconstruct_from self prev [] acc = Inr (acc, self)"
| "reconstruct_from self prev (old_node # rest) acc =
     (let (new_node, self1) = alloc_node (Node (state (node_at self old_node)) Forward None None None) self in
      case prev of
        None \<Rightarrow> reconstruct_from self1 (Some new_node) rest (acc @ [new_node])
      | Some prev_node \<Rightarrow>
          (case (if tree_type (node_at self1 old_node) = Forward
                 then Inr (segment_time (node_at self1 old_node), trajectory_info (node_at self1 old_node))
                 else (case compute_optimal_segment self1 (state (node_at self1 prev_node))
                               (state (node_at self1 new_node)) of
                         Inl e \<Rightarrow> Inl e
                       | Inr (seg_time, info) \<Rightarrow> Inr (Some seg_time, Some info))) of
             Inl e \<Rightarrow> Inl e
           | Inr (seg, info) \<Rightarrow>
               (let self2 = node_update new_node
                              (\<lambda>nd. nd\<lparr>segment_time := seg, trajectory_info := info,
                                        parent := Some prev_node\<rparr>) self1;
                    self3 = node_update prev_node
                              (\<lambda>nd. nd\<lparr>children := children nd @ [new_node]\<rparr>) self2
                in reconstruct_from self3 (Some new_node) rest (acc @ [new_node]))))"

definition reconstruct_path :: "ramp_planner \<Rightarrow> nat list \<Rightarrow> py_error + nat list \<times> ramp_planner" where
  "reconstruct_path self path = reconstruct_from self None path []"

text \<open>The loop of \<^verbatim>\<open>_construct_path\<close> over the states that the smoother returned.\<close>

fun construct_from ::
  "ramp_planner \<Rightarrow> nat option \<Rightarrow> real list list \<Rightarrow> nat list \<Rightarrow> py_error + nat list \<times> ramp_planner" where
  "construct_from self prev [] acc = Inr (acc, self)"
| "construct_from self prev (st # rest) acc =
     (let (new_node, self1) = alloc_node (Node st Forward None None None) self in
      case prev of
        None \<Rightarrow> construct_from self1 (Some new_node) rest (acc @ [new_node])
      | Some prev_node \<Rightarrow>
          (case compute_optimal_segment self1 (state (node_at self1 prev_node))
                  (state (node_at self1 new_node)) of
             Inl e \<Rightarrow> Inl e
           | Inr (seg_time, info) \<Rightarrow>
               (let self2 = node_update new_node
                              (\<lambda>nd. nd\<lparr>segment_time := Some seg_time, trajectory_info := Some info,
                                        parent := Some prev_node\<rparr>) self1;
                    self3 = node_update prev_node
                              (\<lambda>nd. nd\<lparr>children := children nd @ [new_node]\<rparr>) self2
                in construct_from self3 (Some new_node) rest (acc @ [new_node]))))"

text \<open>\<^verbatim>\<open>smooth_path\<close>.  The smoother \<^verbatim>\<open>FSBAS\<close> is imported from a module that is not
  among the source files; it is the parameter \<open>fsbas\<close>, applied to the states of the path,
  \<open>vmax\<close>, \<open>amax\<close>, the collision predicate and the iteration count.\<close>

type_synonym smoother =
  "real list list \<Rightarrow> real list \<Rightarrow> real list \<Rightarrow> (real list \<Rightarrow> bool) \<Rightarrow> nat \<Rightarrow> py_error + real list list"

definition smooth_path ::
  "smoother \<Rightarrow> ramp_planner \<Rightarrow> nat list \<Rightarrow> nat \<Rightarrow> py_error + nat list \<times> ramp_planner" where
  "smooth_path fsbas self path max_iterations =
     (let path_state = map (\<lambda>i. state (node_at self i)) path in
      case fsbas path_state (vmax self) (amax self) (collision_checker self) max_iterations of
        Inl e \<Rightarrow> Inl e
      | Inr smoothed_path \<Rightarrow> construct_from self None smoothed_path [])"

subsection \<open>Tree repair\<close>

text \<open>The inner loop of \<^verbatim>\<open>remove_infeasible_edge\<close>: the stack of nodes still to be
  relabelled and moved from the tree list \<open>old_ty\<close> to the other tree list.
  \<^verbatim>\<open>stack.pop()\<close> takes the last element; \<^verbatim>\<open>old_tree.remove(node)\<close> raises when the
  node is not in the list.\<close>

function relabel_subtree ::
  "ramp_planner \<Rightarrow> tree_type \<Rightarrow> nat \<Rightarrow> nat list \<Rightarrow> py_error + ramp_planner" where
  "relabel_subtree self old_ty new_parent_node stack =
     (if stack = [] then Inr self
      else (let nd = last stack;
                self1 = node_update nd
                          (\<lambda>x. x\<lparr>tree_type := tree_type (node_at self new_parent_node)\<rparr>) self
            in if nd \<notin> set (tree_of self1 old_ty) then Inl NotInList
               else (let self2 = tree_update old_ty (remove1 nd) self1;
                         self3 = tree_update (other_tree old_ty) (\<lambda>tree. tree @ [nd]) self2
                     in relabel_subtree self3 old_ty new_parent_node
                          (butlast stack @ children (node_at self3 nd)))))"
  by pat_completeness auto

lemma tree_of_node_update [simp]: "tree_of (node_update i f self) ty = tree_of self ty"
  by (cases ty) (simp_all add: node_update_def)

lemma tree_of_tree_update [simp]:
  "tree_of (tree_update ty f self) ty' = (if ty = ty' then f (tree_of self ty) else tree_of self ty')"
  by (cases ty; cases ty') simp_all

lemma other_tree_neq [simp]: "other_tree ty \<noteq> ty" "ty \<noteq> other_tree ty"
  by (cases ty; simp)+

lemma length_remove1_less: "x \<in> set xs \<Longrightarrow> length (remove1 x xs) < length xs"
  using length_pos_if_in_set [of x xs] by (simp add: length_remove1)

termination relabel_subtree
  by (relation "measure (\<lambda>(self, old_ty, new_parent_node, stack). length (tree_of self old_ty))")
     (auto simp: length_remove1_less)

lemma relabel_subtree_shrinks:
  "relabel_subtree self old_ty np stack = Inr self' \<Longrightarrow>
   length (tree_of self' old_ty) + (if stack = [] then 0 else 1) \<le> length (tree_of self old_ty)"
proof (induction self old_ty np stack rule: relabel_subtree.induct)
  case (1 self old_ty np stack)
  show ?case
  proof (cases "stack = []")
    case True
    with "1.prems" show ?thesis by simp
  next
    case False
    define nd where "nd = last stack"
    define self1 where
      "self1 = node_update nd (\<lambda>x. x\<lparr>tree_type := tree_type (node_at self np)\<rparr>) self"
    define self3 where
      "self3 = tree_update (other_tree old_ty) (\<lambda>tree. tree @ [nd])
                 (tree_update old_ty (remove1 nd) self1)"
    have mem: "nd \<in> set (tree_of self1 old_ty)"
      using "1.prems" False
      by (subst (asm) relabel_subtree.simps) (auto simp: Let_def nd_def self1_def split: if_splits)
    have rec: "relabel_subtree self3 old_ty np (butlast stack @ children (node_at self3 nd)) = Inr self'"
      using "1.prems" False mem
      by (subst (asm) relabel_subtree.simps) (simp add: Let_def nd_def self1_def self3_def)
    have "length (tree_of self' old_ty) \<le> length (tree_of self3 old_ty)"
      using "1.IH" [OF False nd_def self1_def _ refl self3_def rec] mem
      by (simp split: if_splits)
    moreover have "length (tree_of self3 old_ty) + 1 = length (tree_of self old_ty)"
      using mem length_remove1_less [of nd "tree_of self old_ty"]
      by (simp add: self3_def self1_def length_remove1)
    ultimately show ?thesis using False by simp
  qed
qed

text \<open>The outer loop of \<^verbatim>\<open>remove_infeasible_edge\<close>: the walk from the bridge node in the
  tree of the failing edge along the recorded old parents, until \<open>current_node\<close> is
  \<open>start_node\<close>.  \<^verbatim>\<open>old_parent.children\<close> raises when the old parent is \<^verbatim>\<open>None\<close>, and
  \<^verbatim>\<open>children.remove\<close> raises when the node is not in the list.\<close>

function reparent_walk ::
  "ramp_planner \<Rightarrow> tree_type \<Rightarrow> nat \<Rightarrow> nat \<Rightarrow> nat \<Rightarrow> py_error + ramp_planner" where
  "reparent_walk self old_ty start_node current_node new_parent_node =
     (if current_node = start_node then Inr self
      else (case parent (node_at self current_node) of
              None \<Rightarrow> Inl NoneAttribute
            | Some old_parent \<Rightarrow>
                (let self1 = node_update current_node (\<lambda>x. x\<lparr>parent := Some new_parent_node\<rparr>) self in
                 if current_node \<notin> set (children (node_at self1 old_parent)) then Inl NotInList
                 else (let self2 = node_update old_parent
                                     (\<lambda>x. x\<lparr>children := remove1 current_node (children x)\<rparr>) self1;
                           self3 = node_update new_parent_node
                                     (\<lambda>x. x\<lparr>children := children x @ [current_node]\<rparr>) self2
                       in case compute_optimal_segment self3 (state (node_at self3 new_parent_node))
                                 (state (node_at self3 current_node)) of
                            Inl e \<Rightarrow> Inl e
                          | Inr (seg_time, info) \<Rightarrow>
                              (let self4 = node_update current_node
                                             (\<lambda>x. x\<lparr>segment_time := Some seg_time,
                                                     trajectory_info := Some info\<rparr>) self3
                               in case relabel_subtree self4 old_ty new_parent_node [current_node] of
                                    Inl e \<Rightarrow> Inl e
                                  | Inr self5 \<Rightarrow>
                                      reparent_walk self5 old_ty start_node old_parent current_node)))))"
  by pat_completeness auto
termination
proof (relation "measure (\<lambda>(self, old_ty, start_node, current_node, new_parent_node).
                   length (tree_of self old_ty))", goal_cases)
  case 1
  show ?case by simp
next
  case (2 self old_ty start_node current_node new_parent_node old_parent self1 self2 self3 r
      seg_time info self4 self5)
  have "length (tree_of self5 old_ty) + 1 \<le> length (tree_of self4 old_ty)"
    using relabel_subtree_shrinks [of self4 old_ty new_parent_node "[current_node]" self5] 2
    by simp
  moreover have "tree_of self4 old_ty = tree_of self old_ty"
    using 2 by simp
  ultimately show ?case by simp
qed

text \<open>\<^verbatim>\<open>remove_infeasible_edge\<close>.\<close>

definition remove_infeasible_edge ::
  "ramp_planner \<Rightarrow> nat \<times> nat \<times> nat \<times> nat \<Rightarrow> py_error + ramp_planner" where
  "remove_infeasible_edge self infeasible_edge =
     (let (start_node, end_node, bridge_start_node, bridge_end_node) = infeasible_edge in
      if tree_type (node_at self start_node) \<noteq> tree_type (node_at self end_node) then Inr self
      else (let old_ty = tree_type (node_at self start_node);
                (bridge_in_same_tree, bridge_in_other_tree) =
                  (if tree_type (node_at self bridge_start_node) = tree_type (node_at self end_node)
                   then (bridge_start_node, bridge_end_node)
                   else (bridge_end_node, bridge_start_node))
            in reparent_walk self old_ty start_node bridge_in_same_tree bridge_in_other_tree))"

subsection \<open>The planning loop\<close>

text \<open>The loop \<^verbatim>\<open>for i in range(self.max_iters)\<close> of \<^verbatim>\<open>plan\<close> from round \<open>i\<close> on, with
  \<open>remaining\<close> rounds to go.  \<open>rnd i\<close> holds the random draws of round \<open>i\<close>.  The result is
  the list of states of the smoothed path, or \<open>None\<close>.\<close>

fun plan_loop ::
  "smoother \<Rightarrow> nat \<Rightarrow> (nat \<Rightarrow> nat \<times> (nat \<Rightarrow> real)) \<Rightarrow> nat \<Rightarrow> nat \<Rightarrow> ramp_planner
     \<Rightarrow> py_error + real list list option \<times> ramp_planner" where
  "plan_loop fsbas smooth_iterations rnd 0 i self = Inr (None, self)"
| "plan_loop fsbas smooth_iterations rnd (Suc remaining) i self =
     (let (current_tree, other) = (if i mod 2 = 0 then (Forward, Backward) else (Backward, Forward));
          (k, us) = rnd i
      in case extend_tree self current_tree k us of
           Inl e \<Rightarrow> Inl e
         | Inr (None, self1) \<Rightarrow> plan_loop fsbas smooth_iterations rnd remaining (Suc i) self1
         | Inr (Some extended_node, self1) \<Rightarrow>
             (case connect_trees self1 other extended_node default_epsilon of
                Inl e \<Rightarrow> Inl e
              | Inr None \<Rightarrow> plan_loop fsbas smooth_iterations rnd remaining (Suc i) self1
              | Inr (Some paths) \<Rightarrow>
                  (case check_paths_collision self1 paths of
                     Inl e \<Rightarrow> Inl e
                   | Inr (Connected result) \<Rightarrow>
                       (case reconstruct_path self1 result of
                          Inl e \<Rightarrow> Inl e
                        | Inr (reconstructed_path, self2) \<Rightarrow>
                            (case smooth_path fsbas self2 reconstructed_path smooth_iterations of
                               Inl e \<Rightarrow> Inl e
                             | Inr (smoothed_path, self3) \<Rightarrow>
                                 Inr (Some (map (\<lambda>n. state (node_at self3 n)) smoothed_path), self3)))
                   | Inr (Infeasible edge) \<Rightarrow>
                       (case remove_infeasible_edge self1 edge of
                          Inl e \<Rightarrow> Inl e
                        | Inr self2 \<Rightarrow>
                            plan_loop fsbas smooth_iterations rnd remaining (Suc i) self2))))"

text \<open>\<^verbatim>\<open>plan\<close>: \<open>Inr (None, _)\<close> is the result \<^verbatim>\<open>None\<close>, \<open>Inl e\<close> an exception that
  leaves \<^verbatim>\<open>plan\<close>.\<close>

definition plan ::
  "smoother \<Rightarrow> nat \<Rightarrow> (nat \<Rightarrow> nat \<times> (nat \<Rightarrow> real)) \<Rightarrow> ramp_planner
     \<Rightarrow> py_error + real list list option \<times> ramp_planner" where
  "plan fsbas smooth_iterations rnd self =
     (case seed_trees self of
        Inl e \<Rightarrow> Inl e
      | Inr (False, self1) \<Rightarrow> Inr (None, self1)
      | Inr (True, self1) \<Rightarrow> plan_loop fsbas smooth_iterations rnd (max_iters self1) 0 self1)"

section \<open>Properties of the segment solver\<close>

subsection \<open>Evaluation helpers\<close>

lemma sqrt_20_gt_4: "4 < sqrt 20"
  by (rule real_less_rsqrt) simp

lemma sqrt_400: "sqrt 400 = 20"
  using real_sqrt_abs2 [of 20] by simp

subsection \<open>The rest-to-rest scenario over five units\<close>

lemma scenario_time_candidates:
  "time_candidates 0 5 0 0 2 1 = [None, None, Some (9 / 2), None]"
  using sqrt_20_gt_4
  by (simp add: time_candidates_def topt_p_plus_p_minus_def topt_p_minus_p_plus_def
      topt_p_plus_l_plus_p_minus_def topt_p_minus_l_plus_p_plus_def solve_quadratic_def Let_def)

lemma scenario_acc_candidates:
  "acc_candidates 0 5 0 0 2 (9 / 2 + default_safe_margin) default_t_margin =
     [None, None, Some (2000000 / 2000001, PplusLplusPminus), None]"
  by (simp add: acc_candidates_def macc_p_plus_p_minus_def macc_p_minus_p_plus_def
      macc_p_plus_l_plus_p_minus_def macc_p_minus_l_minus_p_plus_def solve_quadratic_def
      Let_def sqrt_400 power2_eq_square default_safe_margin_def default_t_margin_def)

text \<open>
  Claim C8.  With \<open>vmax = 2\<close>, \<open>amax = 1\<close>, from position 0 at rest to position 5 at rest:
  of the four candidate classes of the time-optimal solver only \<^verbatim>\<open>P+L+P-\<close> is feasible,
  with an acceleration phase of 2 s up to \<open>vmax\<close>, a cruise of 0.5 s and a deceleration
  phase of 2 s, so the solver returns 4.5 s; the state of that trajectory
  (class \<^verbatim>\<open>P+L+P-\<close>, acceleration \<open>amax\<close>) at \<open>t = T = 4.5\<close> is position 5, velocity 0.
  The same end state is reached by the primitive that the planner itself records for the
  segment: the minimum-acceleration solve at \<open>4.5 + 10\<^sup>-\<^sup>6\<close> selects \<^verbatim>\<open>P+L+P-\<close> too.
\<close>

theorem scenario_rest_to_rest_5:
  "time_candidates 0 5 0 0 2 1 = [None, None, Some (9 / 2), None]
   \<and> univariate_time_optimal_interpolants 0 5 0 0 2 1 = Some (9 / 2)
   \<and> ((2 - 0) / 1 :: real) = 2 \<and> (9 / 2 - 2 - 2 :: real) = 1 / 2
   \<and> compute_trajectory_state 0 5 0 0 1 2 (9 / 2) PplusLplusPminus 2 = (2, 2)
   \<and> compute_trajectory_state 0 5 0 0 1 2 (9 / 2) PplusLplusPminus (5 / 2) = (3, 2)
   \<and> compute_trajectory_state 0 5 0 0 1 2 (9 / 2) PplusLplusPminus (9 / 2) = (5, 0)
   \<and> minimum_acceleration_interpolants 0 5 0 0 2 (9 / 2 + default_safe_margin) 1
        default_t_margin default_a_margin = Inr (Some (2000000 / 2000001, PplusLplusPminus))
   \<and> compute_trajectory_state 0 5 0 0 (2000000 / 2000001) 2 (9 / 2 + default_safe_margin)
        PplusLplusPminus (9 / 2 + default_safe_margin) = (5, 0)"
proof -
  have opt: "univariate_time_optimal_interpolants 0 5 0 0 2 1 = Some (9 / 2)"
    by (simp add: univariate_time_optimal_interpolants_def scenario_time_candidates)
  have s1: "compute_trajectory_state 0 5 0 0 1 2 (9 / 2) PplusLplusPminus 2 = (2, 2)"
    by (simp add: compute_trajectory_state_def Let_def power2_eq_square)
  have s2: "compute_trajectory_state 0 5 0 0 1 2 (9 / 2) PplusLplusPminus (5 / 2) = (3, 2)"
    by (simp add: compute_trajectory_state_def Let_def power2_eq_square)
  have s3: "compute_trajectory_state 0 5 0 0 1 2 (9 / 2) PplusLplusPminus (9 / 2) = (5, 0)"
    by (simp add: compute_trajectory_state_def Let_def power2_eq_square)
  have acc: "minimum_acceleration_interpolants 0 5 0 0 2 (9 / 2 + default_safe_margin) 1
        default_t_margin default_a_margin = Inr (Some (2000000 / 2000001, PplusLplusPminus))"
    by (simp add: minimum_acceleration_interpolants_def scenario_acc_candidates
        default_a_margin_def np_clip_def)
  have s4: "compute_trajectory_state 0 5 0 0 (2000000 / 2000001) 2 (9 / 2 + default_safe_margin)
        PplusLplusPminus (9 / 2 + default_safe_margin) = (5, 0)"
    by (simp add: compute_trajectory_state_def Let_def power2_eq_square default_safe_margin_def)
  show ?thesis
    using scenario_time_candidates opt s1 s2 s3 acc s4 by simp
qed

subsection \<open>What a candidate of the minimum-acceleration solver satisfies\<close>

lemma solve_quadratic_root:
  assumes "r \<in> set (solve_quadratic A B C)" "A \<noteq> 0"
  shows "A * r\<^sup>2 + B * r + C = 0"
proof -
  define d where "d = B\<^sup>2 - 4 * A * C"
  have d0: "0 \<le> d" using assms(1) by (auto simp: solve_quadratic_def Let_def d_def split: if_splits)
  have sq: "(sqrt d)\<^sup>2 = d" using d0 by simp
  have "r = (- B + sqrt d) / (2 * A) \<or> r = (- B - sqrt d) / (2 * A)"
    using assms(1) by (auto simp: solve_quadratic_def Let_def d_def split: if_splits)
  then show ?thesis
  proof
    assume r: "r = (- B + sqrt d) / (2 * A)"
    have "2 * A * r = - B + sqrt d" using r assms(2) by simp
    then have "sqrt d = 2 * A * r + B" by simp
    then have "(2 * A * r + B)\<^sup>2 = B\<^sup>2 - 4 * A * C" using sq d_def by simp
    then have "4 * A * (A * r\<^sup>2 + B * r + C) = 0" by (simp add: power2_eq_square algebra_simps)
    then show ?thesis using assms(2) by simp
  next
    assume r: "r = (- B - sqrt d) / (2 * A)"
    have "2 * A * r = - B - sqrt d" using r assms(2) by simp
    then have "sqrt d = - (2 * A * r + B)" by simp
    then have "(sqrt d)\<^sup>2 = (2 * A * r + B)\<^sup>2" by (simp only: power2_minus)
    then have "(2 * A * r + B)\<^sup>2 = B\<^sup>2 - 4 * A * C" using sq d_def by simp
    then have "4 * A * (A * r\<^sup>2 + B * r + C) = 0" by (simp add: power2_eq_square algebra_simps)
    then show ?thesis using assms(2) by simp
  qed
qed

lemma solve_quadratic_zero_lead: "r \<in> set (solve_quadratic 0 B C) \<Longrightarrow> r = 0"
  by (auto simp: solve_quadratic_def Let_def split: if_splits)

lemma np_min_mem: "np_min t ts \<in> set (t # ts)"
  by (induction t ts rule: np_min.induct) (auto simp: min_def)

lemma np_min_le: "u \<in> set (t # ts) \<Longrightarrow> np_min t ts \<le> u"
  by (induction t ts arbitrary: u rule: np_min.induct) (auto simp: min_le_iff_disj)

lemma macc_p_plus_p_minus_SomeD:
  assumes "macc_p_plus_p_minus x1 x2 v1 v2 vm T tm = Some (a, c)"
  shows "c = PplusPminus \<and> 0 < a
    \<and> T\<^sup>2 * a\<^sup>2 + (2 * T * (v1 + v2) + 4 * (x1 - x2)) * a - (v2 - v1)\<^sup>2 = 0
    \<and> 0 < (T + (v2 - v1) / a) / 2 \<and> (T + (v2 - v1) / a) / 2 < T + tm
    \<and> \<bar>v1 + a * ((T + (v2 - v1) / a) / 2)\<bar> \<le> vm"
proof -
  define sols where "sols = solve_quadratic (T\<^sup>2) (2 * T * (v1 + v2) + 4 * (x1 - x2)) (- (v2 - v1)\<^sup>2)"
  define ok where "ok = (\<lambda>a. \<not> a \<le> 0 \<and>
                       (let t_s = 0.5 * (T + (v2 - v1) / a) in
                        0 < t_s \<and> t_s < T + tm \<and> \<bar>v1 + a * t_s\<bar> \<le> vm))"
  from assms obtain a0 as where v: "filter ok sols = a0 # as" and a: "a = np_min a0 as" and c: "c = PplusPminus"
    by (auto simp: macc_p_plus_p_minus_def Let_def sols_def ok_def split: list.splits)
  have "a \<in> set (filter ok sols)" using np_min_mem [of a0 as] v a by simp
  then have mem: "a \<in> set sols" and ok: "ok a" by auto
  have pos: "0 < a" using ok by (simp add: ok_def)
  have "T\<^sup>2 \<noteq> 0"
  proof
    assume "T\<^sup>2 = 0"
    then have "a = 0" using mem solve_quadratic_zero_lead by (simp add: sols_def)
    with pos show False by simp
  qed
  from solve_quadratic_root [OF mem [unfolded sols_def] this]
  have "T\<^sup>2 * a\<^sup>2 + (2 * T * (v1 + v2) + 4 * (x1 - x2)) * a - (v2 - v1)\<^sup>2 = 0" by simp
  then show ?thesis using c pos ok by (simp add: ok_def Let_def)
qed

lemma macc_p_minus_p_plus_SomeD:
  assumes "macc_p_minus_p_plus x1 x2 v1 v2 vm T tm = Some (a, c)"
  shows "c = PminusPplus \<and> 0 < a
    \<and> T\<^sup>2 * a\<^sup>2 - (2 * T * (v1 + v2) + 4 * (x1 - x2)) * a - (v2 - v1)\<^sup>2 = 0
    \<and> 0 < (T + (v1 - v2) / a) / 2 \<and> (T + (v1 - v2) / a) / 2 < T + tm
    \<and> \<bar>v1 - a * ((T + (v1 - v2) / a) / 2)\<bar> \<le> vm"
proof -
  define sols where "sols = solve_quadratic (T\<^sup>2) (- 2 * T * (v1 + v2) - 4 * (x1 - x2)) (- (v2 - v1)\<^sup>2)"
  define ok where "ok = (\<lambda>a. \<not> a \<le> 0 \<and>
                       (let t_s = 0.5 * (T + (v1 - v2) / a) in
                        0 < t_s \<and> t_s < T + tm \<and> \<bar>v1 - a * t_s\<bar> \<le> vm))"
  from assms obtain a0 as where v: "filter ok sols = a0 # as" and a: "a = np_min a0 as" and c: "c = PminusPplus"
    by (auto simp: macc_p_minus_p_plus_def Let_def sols_def ok_def split: list.splits)
  have "a \<in> set (filter ok sols)" using np_min_mem [of a0 as] v a by simp
  then have mem: "a \<in> set sols" and ok: "ok a" by auto
  have pos: "0 < a" using ok by (simp add: ok_def)
  have "T\<^sup>2 \<noteq> 0"
  proof
    assume "T\<^sup>2 = 0"
    then have "a = 0" using mem solve_quadratic_zero_lead by (simp add: sols_def)
    with pos show False by simp
  qed
  from solve_quadratic_root [OF mem [unfolded sols_def] this]
  have "T\<^sup>2 * a\<^sup>2 - (2 * T * (v1 + v2) + 4 * (x1 - x2)) * a - (v2 - v1)\<^sup>2 = 0"
    by (simp add: algebra_simps)
  then show ?thesis using c pos ok by (simp add: ok_def Let_def)
qed

lemma macc_p_plus_l_plus_p_minus_SomeD:
  assumes "macc_p_plus_l_plus_p_minus x1 x2 v1 v2 vm T = Some (a, c)"
  shows "c = PplusLplusPminus \<and> 0 < a
    \<and> a * (T * vm - (x2 - x1)) = vm\<^sup>2 - vm * (v1 + v2) + (v1\<^sup>2 + v2\<^sup>2) / 2
    \<and> 0 \<le> (vm - v1) / a \<and> 0 \<le> (vm - v2) / a \<and> 0 \<le> T - (vm - v1) / a - (vm - v2) / a"
proof -
  define num where "num = vm\<^sup>2 - vm * (v1 + v2) + 0.5 * (v1\<^sup>2 + v2\<^sup>2)"
  define den where "den = T * vm - (x2 - x1)"
  from assms have a: "a = num / den" and c: "c = PplusLplusPminus" and pos: "0 < a"
    and ph: "0 \<le> (vm - v1) / a \<and> 0 \<le> (vm - v2) / a \<and> 0 \<le> T - (vm - v1) / a - (vm - v2) / a"
    by (auto simp: macc_p_plus_l_plus_p_minus_def Let_def num_def den_def not_less not_le split: if_splits)
  have "den \<noteq> 0" using a pos by auto
  then have "a * den = num" using a by simp
  then show ?thesis using c pos ph by (simp add: num_def den_def)
qed

lemma macc_p_minus_l_minus_p_plus_SomeD:
  assumes "macc_p_minus_l_minus_p_plus x1 x2 v1 v2 vm T = Some (a, c)"
  shows "c = PminusLminusPplus \<and> 0 < a
    \<and> a * (T * vm + (x2 - x1)) = vm\<^sup>2 + vm * (v1 + v2) + (v1\<^sup>2 + v2\<^sup>2) / 2
    \<and> 0 \<le> (vm + v1) / a \<and> 0 \<le> (vm + v2) / a \<and> 0 \<le> T - (vm + v1) / a - (vm + v2) / a"
proof -
  define num where "num = vm\<^sup>2 + vm * (v1 + v2) + 0.5 * (v1\<^sup>2 + v2\<^sup>2)"
  define den where "den = T * vm + (x2 - x1)"
  from assms have a: "a = num / den" and c: "c = PminusLminusPplus" and pos: "0 < a"
    and ph: "0 \<le> (vm + v1) / a \<and> 0 \<le> (vm + v2) / a \<and> 0 \<le> T - (vm + v1) / a - (vm + v2) / a"
    by (auto simp: macc_p_minus_l_minus_p_plus_def Let_def num_def den_def not_less not_le split: if_splits)
  have "den \<noteq> 0" using a pos by auto
  then have "a * den = num" using a by simp
  then show ?thesis using c pos ph by (simp add: num_def den_def)
qed

lemma acc_candidates_SomeD:
  assumes "Some (a, c) \<in> set (acc_candidates x1 x2 v1 v2 vm T tm)"
  shows "(c = PplusPminus \<and> macc_p_plus_p_minus x1 x2 v1 v2 vm T tm = Some (a, c))
       \<or> (c = PminusPplus \<and> macc_p_minus_p_plus x1 x2 v1 v2 vm T tm = Some (a, c))
       \<or> (c = PplusLplusPminus \<and> macc_p_plus_l_plus_p_minus x1 x2 v1 v2 vm T = Some (a, c))
       \<or> (c = PminusLminusPplus \<and> macc_p_minus_l_minus_p_plus x1 x2 v1 v2 vm T = Some (a, c))"
  using assms macc_p_plus_p_minus_SomeD [of x1 x2 v1 v2 vm T tm a c]
    macc_p_minus_p_plus_SomeD [of x1 x2 v1 v2 vm T tm a c]
    macc_p_plus_l_plus_p_minus_SomeD [of x1 x2 v1 v2 vm T a c]
    macc_p_minus_l_minus_p_plus_SomeD [of x1 x2 v1 v2 vm T a c]
  by (auto simp: acc_candidates_def)

subsection \<open>Continuity and end points of the state evaluation\<close>

text \<open>Each branch of the state evaluation written as one expression in \<open>min\<close> and
  \<open>max\<close> of the time and the phase boundaries.\<close>

lemma two_phase_plus_closed:
  "compute_trajectory_state x1 x2 v1 v2 a vm T PplusPminus t =
    (let ts = 0.5 * (T + (v2 - v1) / a); m = min t ts; M = max t ts in
     (x1 + v1 * m + 0.5 * a * m\<^sup>2 + (v1 + a * ts) * (M - ts) - 0.5 * a * (M - ts)\<^sup>2,
      v1 + a * m - a * (M - ts)))"
  by (simp add: compute_trajectory_state_def Let_def min_def max_def)

lemma two_phase_minus_closed:
  "compute_trajectory_state x1 x2 v1 v2 a vm T PminusPplus t =
    (let ts = 0.5 * (T + (v1 - v2) / a); m = min t ts; M = max t ts in
     (x1 + v1 * m - 0.5 * a * m\<^sup>2 + (v1 - a * ts) * (M - ts) + 0.5 * a * (M - ts)\<^sup>2,
      v1 - a * m + a * (M - ts)))"
  by (simp add: compute_trajectory_state_def Let_def min_def max_def)

lemma three_phase_plus_closed:
  assumes "a \<noteq> 0" "0 \<le> T - (vm - v1) / a - (vm - v2) / a"
  shows "compute_trajectory_state x1 x2 v1 v2 a vm T PplusLplusPminus t =
    (let b1 = (vm - v1) / a; b2 = T - (vm - v2) / a;
         m1 = min t b1; m2 = min (max t b1) b2; m3 = max t b2 in
     (x1 + v1 * m1 + 0.5 * a * m1\<^sup>2 + vm * (m2 - b1) + vm * (m3 - b2) - 0.5 * a * (m3 - b2)\<^sup>2,
      v1 + a * m1 - a * (m3 - b2)))"
proof -
  define p1 where "p1 = (vm - v1) / a"
  define p2 where "p2 = (vm - v2) / a"
  have ab: "vm = v1 + a * p1" using assms(1) by (simp add: p1_def)
  have le: "p1 \<le> T - p2" using assms(2) by (simp add: p1_def p2_def)
  have b2: "p1 + (T - p1 - p2) = T - p2" by simp
  have "compute_trajectory_state x1 x2 v1 v2 a vm T PplusLplusPminus t =
    (let m1 = min t p1; m2 = min (max t p1) (T - p2); m3 = max t (T - p2) in
     (x1 + v1 * m1 + 0.5 * a * m1\<^sup>2 + vm * (m2 - p1) + vm * (m3 - (T - p2)) - 0.5 * a * (m3 - (T - p2))\<^sup>2,
      v1 + a * m1 - a * (m3 - (T - p2))))"
    unfolding compute_trajectory_state_def primitive.case Let_def p1_def [symmetric] p2_def [symmetric] b2
    using le by (auto simp: min_def max_def ab algebra_simps)
  then show ?thesis by (simp add: Let_def p1_def p2_def)
qed

lemma three_phase_minus_closed:
  assumes "a \<noteq> 0" "0 \<le> T - (vm + v1) / a - (vm + v2) / a"
  shows "compute_trajectory_state x1 x2 v1 v2 a vm T PminusLminusPplus t =
    (let b1 = (vm + v1) / a; b2 = T - (vm + v2) / a;
         m1 = min t b1; m2 = min (max t b1) b2; m3 = max t b2 in
     (x1 + v1 * m1 - 0.5 * a * m1\<^sup>2 - vm * (m2 - b1) - vm * (m3 - b2) + 0.5 * a * (m3 - b2)\<^sup>2,
      v1 - a * m1 + a * (m3 - b2)))"
proof -
  define p1 where "p1 = (vm + v1) / a"
  define p2 where "p2 = (vm + v2) / a"
  have ab: "vm = a * p1 - v1" using assms(1) by (simp add: p1_def)
  have le: "p1 \<le> T - p2" using assms(2) by (simp add: p1_def p2_def)
  have b2: "p1 + (T - p1 - p2) = T - p2" by simp
  have "compute_trajectory_state x1 x2 v1 v2 a vm T PminusLminusPplus t =
    (let m1 = min t p1; m2 = min (max t p1) (T - p2); m3 = max t (T - p2) in
     (x1 + v1 * m1 - 0.5 * a * m1\<^sup>2 - vm * (m2 - p1) - vm * (m3 - (T - p2)) + 0.5 * a * (m3 - (T - p2))\<^sup>2,
      v1 - a * m1 + a * (m3 - (T - p2))))"
    unfolding compute_trajectory_state_def primitive.case Let_def p1_def [symmetric] p2_def [symmetric] b2
    using le by (auto simp: min_def max_def ab algebra_simps)
  then show ?thesis by (simp add: Let_def p1_def p2_def)
qed

lemma isCont_two_phase_plus:
  "isCont (\<lambda>t. fst (compute_trajectory_state x1 x2 v1 v2 a vm T PplusPminus t)) t
 \<and> isCont (\<lambda>t. snd (compute_trajectory_state x1 x2 v1 v2 a vm T PplusPminus t)) t"
  unfolding two_phase_plus_closed Let_def fst_conv snd_conv
  by (intro conjI continuous_intros)

lemma isCont_two_phase_minus:
  "isCont (\<lambda>t. fst (compute_trajectory_state x1 x2 v1 v2 a vm T PminusPplus t)) t
 \<and> isCont (\<lambda>t. snd (compute_trajectory_state x1 x2 v1 v2 a vm T PminusPplus t)) t"
  unfolding two_phase_minus_closed Let_def fst_conv snd_conv
  by (intro conjI continuous_intros)

lemma isCont_three_phase_plus:
  assumes "a \<noteq> 0" "0 \<le> T - (vm - v1) / a - (vm - v2) / a"
  shows "isCont (\<lambda>t. fst (compute_trajectory_state x1 x2 v1 v2 a vm T PplusLplusPminus t)) t
 \<and> isCont (\<lambda>t. snd (compute_trajectory_state x1 x2 v1 v2 a vm T PplusLplusPminus t)) t"
  unfolding three_phase_plus_closed [OF assms] Let_def fst_conv snd_conv
  by (intro conjI continuous_intros)

lemma isCont_three_phase_minus:
  assumes "a \<noteq> 0" "0 \<le> T - (vm + v1) / a - (vm + v2) / a"
  shows "isCont (\<lambda>t. fst (compute_trajectory_state x1 x2 v1 v2 a vm T PminusLminusPplus t)) t
 \<and> isCont (\<lambda>t. snd (compute_trajectory_state x1 x2 v1 v2 a vm T PminusLminusPplus t)) t"
  unfolding three_phase_minus_closed [OF assms] Let_def fst_conv snd_conv
  by (intro conjI continuous_intros)

lemma start_state_two_phase_plus:
  "0 \<le> (T + (v2 - v1) / a) / 2 \<Longrightarrow>
   compute_trajectory_state x1 x2 v1 v2 a vm T PplusPminus 0 = (x1, v1)"
  by (simp add: compute_trajectory_state_def Let_def)

lemma start_state_two_phase_minus:
  "0 \<le> (T + (v1 - v2) / a) / 2 \<Longrightarrow>
   compute_trajectory_state x1 x2 v1 v2 a vm T PminusPplus 0 = (x1, v1)"
  by (simp add: compute_trajectory_state_def Let_def)

lemma start_state_three_phase_plus:
  "0 \<le> (vm - v1) / a \<Longrightarrow>
   compute_trajectory_state x1 x2 v1 v2 a vm T PplusLplusPminus 0 = (x1, v1)"
  by (simp add: compute_trajectory_state_def Let_def)

lemma start_state_three_phase_minus:
  "0 \<le> (vm + v1) / a \<Longrightarrow>
   compute_trajectory_state x1 x2 v1 v2 a vm T PminusLminusPplus 0 = (x1, v1)"
  by (simp add: compute_trajectory_state_def Let_def)

lemma end_state_two_phase_plus:
  assumes a: "0 < a"
    and q: "T\<^sup>2 * a\<^sup>2 + (2 * T * (v1 + v2) + 4 * (x1 - x2)) * a - (v2 - v1)\<^sup>2 = 0"
    and sw: "(v2 - v1) / a \<le> T"
  shows "compute_trajectory_state x1 x2 v1 v2 a vm T PplusPminus T = (x2, v2)"
proof -
  define w where "w = (v2 - v1) / a"
  have v2: "v2 = v1 + a * w" using a by (simp add: w_def)
  have "a * (T\<^sup>2 * a + 4 * T * v1 + 2 * T * a * w + 4 * (x1 - x2) - a * w\<^sup>2) = 0"
    using q unfolding v2 by (simp add: power2_eq_square algebra_simps)
  then have "T\<^sup>2 * a + 4 * T * v1 + 2 * T * a * w + 4 * (x1 - x2) - a * w\<^sup>2 = 0"
    using a by simp
  then have x2: "x2 = x1 + v1 * T + a * (T\<^sup>2 + 2 * T * w - w\<^sup>2) / 4"
    by (simp add: field_simps)
  have wT: "w \<le> T" using sw by (simp add: w_def)
  have m: "min T (0.5 * (T + w)) = 0.5 * (T + w)" "max T (0.5 * (T + w)) = T"
    using wT by (simp_all add: min_def max_def)
  show ?thesis
    unfolding two_phase_plus_closed Let_def w_def [symmetric] m
    by (simp add: x2 v2 power2_eq_square field_simps)
qed

lemma end_state_two_phase_minus:
  assumes a: "0 < a"
    and q: "T\<^sup>2 * a\<^sup>2 - (2 * T * (v1 + v2) + 4 * (x1 - x2)) * a - (v2 - v1)\<^sup>2 = 0"
    and sw: "(v1 - v2) / a \<le> T"
  shows "compute_trajectory_state x1 x2 v1 v2 a vm T PminusPplus T = (x2, v2)"
proof -
  define w where "w = (v1 - v2) / a"
  have v2: "v2 = v1 - a * w" using a by (simp add: w_def)
  have "a * (T\<^sup>2 * a - 4 * T * v1 + 2 * T * a * w - 4 * (x1 - x2) - a * w\<^sup>2) = 0"
    using q unfolding v2 by (simp add: power2_eq_square algebra_simps)
  then have "T\<^sup>2 * a - 4 * T * v1 + 2 * T * a * w - 4 * (x1 - x2) - a * w\<^sup>2 = 0"
    using a by simp
  then have x2: "x2 = x1 + v1 * T - a * (T\<^sup>2 + 2 * T * w - w\<^sup>2) / 4"
    by (simp add: field_simps)
  have wT: "w \<le> T" using sw by (simp add: w_def)
  have m: "min T (0.5 * (T + w)) = 0.5 * (T + w)" "max T (0.5 * (T + w)) = T"
    using wT by (simp_all add: min_def max_def)
  show ?thesis
    unfolding two_phase_minus_closed Let_def w_def [symmetric] m
    by (simp add: x2 v2 power2_eq_square field_simps)
qed

lemma end_state_three_phase_plus:
  assumes a: "0 < a"
    and q: "a * (T * vm - (x2 - x1)) = vm\<^sup>2 - vm * (v1 + v2) + (v1\<^sup>2 + v2\<^sup>2) / 2"
    and p1: "0 \<le> (vm - v1) / a" and p2: "0 \<le> (vm - v2) / a"
    and l: "0 \<le> T - (vm - v1) / a - (vm - v2) / a"
  shows "compute_trajectory_state x1 x2 v1 v2 a vm T PplusLplusPminus T = (x2, v2)"
proof -
  define b1 where "b1 = (vm - v1) / a"
  define b3 where "b3 = (vm - v2) / a"
  have v1: "v1 = vm - a * b1" and v2: "v2 = vm - a * b3" using a by (simp_all add: b1_def b3_def)
  have "a * (T * vm - (x2 - x1)) = a * (a * (b1\<^sup>2 + b3\<^sup>2) / 2)"
    using q unfolding v1 v2 by (simp add: power2_eq_square field_simps)
  then have "T * vm - (x2 - x1) = a * (b1\<^sup>2 + b3\<^sup>2) / 2" using a by simp
  then have x2: "x2 = x1 + T * vm - a * (b1\<^sup>2 + b3\<^sup>2) / 2" by (simp add: field_simps)
  have le: "b1 \<le> T - b3" "0 \<le> b1" "0 \<le> b3" using l p1 p2 by (simp_all add: b1_def b3_def)
  have m: "min T b1 = b1" "max T b1 = T" "min T (T - b3) = T - b3" "max T (T - b3) = T"
    using le by (simp_all add: min_def max_def)
  have a0: "a \<noteq> 0" using a by simp
  show ?thesis
    unfolding three_phase_plus_closed [OF a0 l] Let_def b1_def [symmetric] b3_def [symmetric] m
    by (simp add: x2 v1 v2 power2_eq_square field_simps)
qed

lemma end_state_three_phase_minus:
  assumes a: "0 < a"
    and q: "a * (T * vm + (x2 - x1)) = vm\<^sup>2 + vm * (v1 + v2) + (v1\<^sup>2 + v2\<^sup>2) / 2"
    and p1: "0 \<le> (vm + v1) / a" and p2: "0 \<le> (vm + v2) / a"
    and l: "0 \<le> T - (vm + v1) / a - (vm + v2) / a"
  shows "compute_trajectory_state x1 x2 v1 v2 a vm T PminusLminusPplus T = (x2, v2)"
proof -
  define b1 where "b1 = (vm + v1) / a"
  define b3 where "b3 = (vm + v2) / a"
  have v1: "v1 = a * b1 - vm" and v2: "v2 = a * b3 - vm" using a by (simp_all add: b1_def b3_def)
  have "a * (T * vm + (x2 - x1)) = a * (a * (b1\<^sup>2 + b3\<^sup>2) / 2)"
    using q unfolding v1 v2 by (simp add: power2_eq_square field_simps)
  then have "T * vm + (x2 - x1) = a * (b1\<^sup>2 + b3\<^sup>2) / 2" using a by simp
  then have x2: "x2 = x1 - T * vm + a * (b1\<^sup>2 + b3\<^sup>2) / 2" by (simp add: field_simps)
  have le: "b1 \<le> T - b3" "0 \<le> b1" "0 \<le> b3" using l p1 p2 by (simp_all add: b1_def b3_def)
  have m: "min T b1 = b1" "max T b1 = T" "min T (T - b3) = T - b3" "max T (T - b3) = T"
    using le by (simp_all add: min_def max_def)
  have a0: "a \<noteq> 0" using a by simp
  show ?thesis
    unfolding three_phase_minus_closed [OF a0 l] Let_def b1_def [symmetric] b3_def [symmetric] m
    by (simp add: x2 v1 v2 power2_eq_square field_simps)
qed

text \<open>
  Claim C7, as amended.  Let \<open>(a, c)\<close> be a primitive returned by the minimum-acceleration
  solver whose acceleration is the one the solver computed for class \<open>c\<close> (it was not
  clipped down to \<open>amax\<close>).  Then position and velocity of the state evaluation are
  continuous functions of the time, so the closed forms of two adjoining phases agree at
  their boundary; the state at \<open>t = 0\<close> is \<open>(x1, v1)\<close>; and the state at \<open>t = T\<close> is
  \<open>(x2, v2)\<close>, for the two-phase classes provided that the switch time is not later than
  \<open>T\<close> (the solver accepts switch times up to \<open>T + t_margin\<close>).  All equalities are exact
  over the reals.
\<close>

theorem candidate_primitive_continuity:
  assumes ret: "minimum_acceleration_interpolants x1 x2 v1 v2 vm T am tm a_margin = Inr (Some (a, c))"
    and raw: "Some (a, c) \<in> set (acc_candidates x1 x2 v1 v2 vm T tm)"
  shows "(\<forall>t. isCont (\<lambda>t. fst (compute_trajectory_state x1 x2 v1 v2 a vm T c t)) t
            \<and> isCont (\<lambda>t. snd (compute_trajectory_state x1 x2 v1 v2 a vm T c t)) t)
       \<and> compute_trajectory_state x1 x2 v1 v2 a vm T c 0 = (x1, v1)
       \<and> ((c = PplusPminus \<longrightarrow> (v2 - v1) / a \<le> T) \<and> (c = PminusPplus \<longrightarrow> (v1 - v2) / a \<le> T)
            \<longrightarrow> compute_trajectory_state x1 x2 v1 v2 a vm T c T = (x2, v2))"
proof -
  from acc_candidates_SomeD [OF raw]
  consider
      (pp) "c = PplusPminus" "macc_p_plus_p_minus x1 x2 v1 v2 vm T tm = Some (a, c)"
    | (mp) "c = PminusPplus" "macc_p_minus_p_plus x1 x2 v1 v2 vm T tm = Some (a, c)"
    | (plp) "c = PplusLplusPminus" "macc_p_plus_l_plus_p_minus x1 x2 v1 v2 vm T = Some (a, c)"
    | (mlp) "c = PminusLminusPplus" "macc_p_minus_l_minus_p_plus x1 x2 v1 v2 vm T = Some (a, c)"
    by blast
  then show ?thesis
  proof cases
    case pp
    from macc_p_plus_p_minus_SomeD [OF pp(2)] show ?thesis
      using isCont_two_phase_plus [where ?x1.0=x1 and ?x2.0=x2 and ?v1.0=v1 and ?v2.0=v2 and a=a and vm=vm and T=T]
        start_state_two_phase_plus [where ?x1.0=x1 and ?x2.0=x2 and ?v1.0=v1 and ?v2.0=v2 and a=a and vm=vm and T=T]
        end_state_two_phase_plus [where ?x1.0=x1 and ?x2.0=x2 and ?v1.0=v1 and ?v2.0=v2 and a=a and vm=vm and T=T]
      by (simp add: pp(1))
  next
    case mp
    from macc_p_minus_p_plus_SomeD [OF mp(2)] show ?thesis
      using isCont_two_phase_minus [where ?x1.0=x1 and ?x2.0=x2 and ?v1.0=v1 and ?v2.0=v2 and a=a and vm=vm and T=T]
        start_state_two_phase_minus [where ?x1.0=x1 and ?x2.0=x2 and ?v1.0=v1 and ?v2.0=v2 and a=a and vm=vm and T=T]
        end_state_two_phase_minus [where ?x1.0=x1 and ?x2.0=x2 and ?v1.0=v1 and ?v2.0=v2 and a=a and vm=vm and T=T]
      by (simp add: mp(1))
  next
    case plp
    from macc_p_plus_l_plus_p_minus_SomeD [OF plp(2)] show ?thesis
      using isCont_three_phase_plus [where ?x1.0=x1 and ?x2.0=x2 and ?v1.0=v1 and ?v2.0=v2 and a=a and vm=vm and T=T]
        start_state_three_phase_plus [where ?x1.0=x1 and ?x2.0=x2 and ?v1.0=v1 and ?v2.0=v2 and a=a and vm=vm and T=T]
        end_state_three_phase_plus [where ?x1.0=x1 and ?x2.0=x2 and ?v1.0=v1 and ?v2.0=v2 and a=a and vm=vm and T=T]
      by (simp add: plp(1))
  next
    case mlp
    from macc_p_minus_l_minus_p_plus_SomeD [OF mlp(2)] show ?thesis
      using isCont_three_phase_minus [where ?x1.0=x1 and ?x2.0=x2 and ?v1.0=v1 and ?v2.0=v2 and a=a and vm=vm and T=T]
        start_state_three_phase_minus [where ?x1.0=x1 and ?x2.0=x2 and ?v1.0=v1 and ?v2.0=v2 and a=a and vm=vm and T=T]
        end_state_three_phase_minus [where ?x1.0=x1 and ?x2.0=x2 and ?v1.0=v1 and ?v2.0=v2 and a=a and vm=vm and T=T]
      by (simp add: mlp(1))
  qed
qed

theorem candidate_primitive_continuity_witness:
  "minimum_acceleration_interpolants 0 5 0 0 2 (9 / 2 + default_safe_margin) 1
      default_t_margin default_a_margin = Inr (Some (2000000 / 2000001, PplusLplusPminus))
   \<and> Some (2000000 / 2000001, PplusLplusPminus)
        \<in> set (acc_candidates 0 5 0 0 2 (9 / 2 + default_safe_margin) default_t_margin)
   \<and> isCont (\<lambda>t. fst (compute_trajectory_state 0 5 0 0 (2000000 / 2000001) 2
        (9 / 2 + default_safe_margin) PplusLplusPminus t)) 2
   \<and> isCont (\<lambda>t. snd (compute_trajectory_state 0 5 0 0 (2000000 / 2000001) 2
        (9 / 2 + default_safe_margin) PplusLplusPminus t)) 2
   \<and> compute_trajectory_state 0 5 0 0 (2000000 / 2000001) 2
        (9 / 2 + default_safe_margin) PplusLplusPminus 0 = (0, 0)
   \<and> compute_trajectory_state 0 5 0 0 (2000000 / 2000001) 2
        (9 / 2 + default_safe_margin) PplusLplusPminus (9 / 2 + default_safe_margin) = (5, 0)"
proof -
  have r: "minimum_acceleration_interpolants 0 5 0 0 2 (9 / 2 + default_safe_margin) 1
        default_t_margin default_a_margin = Inr (Some (2000000 / 2000001, PplusLplusPminus))"
    by (simp add: minimum_acceleration_interpolants_def scenario_acc_candidates
        default_a_margin_def np_clip_def)
  have c: "Some (2000000 / 2000001, PplusLplusPminus)
        \<in> set (acc_candidates 0 5 0 0 2 (9 / 2 + default_safe_margin) default_t_margin)"
    by (simp add: scenario_acc_candidates)
  show ?thesis
    using candidate_primitive_continuity [OF r c] r c by simp
qed

text \<open>
  The claim as stated fails for a clipped acceleration.  From rest to rest over 1000000.5
  units in \<open>T = 2000\<close> with \<open>amax = 1\<close>, the solver computes \<open>a = 1.0000005\<close>, which is
  within \<open>a_margin\<close> of \<open>amax\<close>, and returns the clipped value \<open>a = 1\<close>; the state
  evaluated at \<open>t = T\<close> with that primitive is position 1000000, half a unit short of
  \<open>x2\<close>.
\<close>

lemma sqrt_clip: "sqrt 16000016000004 = 4000002"
  using real_sqrt_abs2 [of 4000002] by simp

lemma clipped_acc_candidates:
  "acc_candidates 0 (2000001 / 2) 0 0 2000 2000 default_t_margin =
     [Some (2000001 / 2000000, PplusPminus), None, None, None]"
  by (simp add: acc_candidates_def macc_p_plus_p_minus_def macc_p_minus_p_plus_def
      macc_p_plus_l_plus_p_minus_def macc_p_minus_l_minus_p_plus_def solve_quadratic_def
      Let_def sqrt_clip power2_eq_square default_t_margin_def)

theorem clipped_primitive_misses_end_state:
  "minimum_acceleration_interpolants 0 (2000001 / 2) 0 0 2000 2000 1 default_t_margin
      default_a_margin = Inr (Some (1, PplusPminus))
   \<and> compute_trajectory_state 0 (2000001 / 2) 0 0 1 2000 2000 PplusPminus 2000 = (1000000, 0)
   \<and> \<bar>2000001 / 2 - fst (compute_trajectory_state 0 (2000001 / 2) 0 0 1 2000 2000 PplusPminus 2000)\<bar>
       = 1 / 2"
proof -
  have r: "minimum_acceleration_interpolants 0 (2000001 / 2) 0 0 2000 2000 1 default_t_margin
      default_a_margin = Inr (Some (1, PplusPminus))"
    by (simp add: minimum_acceleration_interpolants_def clipped_acc_candidates
        default_a_margin_def np_clip_def)
  have s: "compute_trajectory_state 0 (2000001 / 2) 0 0 1 2000 2000 PplusPminus 2000 = (1000000, 0)"
    by (simp add: compute_trajectory_state_def Let_def power2_eq_square)
  show ?thesis using r s by simp
qed

section \<open>Properties of edge validation\<close>










section \<open>Properties of the planning loop\<close>

subsection \<open>A seed whose braking root is out of the position limits\<close>

text \<open>One axis with positions in \<open>[0, 10]\<close>, \<open>vmax = 4\<close>, \<open>amax = 1\<close>, a free space without
  obstacles; the start state is position 0 with velocity 3, the goal position 5 at rest.\<close>

definition seed_fail_planner :: "nat \<Rightarrow> ramp_planner" where
  "seed_fail_planner iters = init_planner [0, 3] [5, 0] iters (\<lambda>p. True) ([0], [10]) [4] [1]"

lemma sf_braking:
  "generate_max_braking_trajectory (seed_fail_planner iters) [0, 3] = Inr None"
  by (simp add: generate_max_braking_trajectory_def seed_fail_planner_def init_planner_def
      dimension_def check_state_limits_def Let_def)

lemma sf_seed:
  "seed_trees (seed_fail_planner iters) =
    Inr (True, (seed_fail_planner iters)
       \<lparr>nodes := [Node [0, 3] Forward None None None,
                  (Node [5, 0] Backward None None None)
                     \<lparr>segment_time := Some 0, trajectory_info := Some [(0, PplusPminus)]\<rparr>,
                  Node [5, 0] Backward None None None],
        backward_tree := [2]\<rparr>)"
  by (simp add: seed_trees_def seed_tree_def sf_braking seed_fail_planner_def init_planner_def node_at_def
        generate_max_braking_trajectory_def dimension_def check_state_limits_def Let_def
        alloc_node_def node_update_def check_edge_collision_def Node_def)

text \<open>
  Claim C4 on this input.  The zero-velocity state from which maximum braking arrives at the
  start state is position \<open>-4.5\<close>, outside the position limits, so
  \<^verbatim>\<open>generate_max_braking_trajectory\<close> returns \<^verbatim>\<open>(None, None, None)\<close>.  \<^verbatim>\<open>seed_trees\<close>
  skips the tree and still returns \<^verbatim>\<open>True\<close>, with an empty forward tree; \<^verbatim>\<open>plan\<close> then
  enters the extension loop, where \<^verbatim>\<open>random.choice\<close> on the empty tree raises an
  \<^verbatim>\<open>IndexError\<close>: the result is not \<^verbatim>\<open>None\<close>.
\<close>

theorem seed_failure_enters_loop:
  "generate_max_braking_trajectory (seed_fail_planner (Suc m))
      (state (node_at (seed_fail_planner (Suc m)) (start (seed_fail_planner (Suc m))))) = Inr None
   \<and> map_sum id fst (seed_trees (seed_fail_planner (Suc m))) = Inr True
   \<and> map_sum id (forward_tree \<circ> snd) (seed_trees (seed_fail_planner (Suc m))) = Inr []
   \<and> plan fsbas its rnd (seed_fail_planner (Suc m)) = Inl EmptySequence"
proof -
  have st: "state (node_at (seed_fail_planner (Suc m)) (start (seed_fail_planner (Suc m)))) = [0, 3]"
    by (simp add: seed_fail_planner_def init_planner_def node_at_def Node_def)
  have m: "max_iters (seed_fail_planner (Suc m)) = Suc m"
    and f: "forward_tree (seed_fail_planner (Suc m)) = []"
    by (simp_all add: seed_fail_planner_def init_planner_def)
  have p: "plan fsbas its rnd (seed_fail_planner (Suc m)) = Inl EmptySequence"
    by (simp add: plan_def sf_seed m f extend_tree_def random_choice_def split: prod.splits)
  show ?thesis
    unfolding st using sf_braking [of "Suc m"] p by (simp add: sf_seed f)
qed

subsection \<open>An extension whose segment has no solution\<close>

text \<open>An axis on which the sampled position equals the position of the chosen node asks the
  segment solver for a rest-to-rest motion over distance zero.  The time-optimal duration
  of that axis is 0, and for every positive duration the minimum-acceleration solver finds
  no candidate (it discards the solution \<open>a = 0\<close>) and raises.\<close>

lemma still_time_candidates: "time_candidates 0 0 0 0 2 1 = [Some 0, Some 0, None, None]"
  by (simp add: time_candidates_def topt_p_plus_p_minus_def topt_p_minus_p_plus_def
      topt_p_plus_l_plus_p_minus_def topt_p_minus_l_plus_p_plus_def solve_quadratic_def Let_def)

lemma still_acc_candidates:
  "0 < T \<Longrightarrow> acc_candidates 0 0 0 0 2 T tm = [None, None, None, None]"
  by (simp add: acc_candidates_def macc_p_plus_p_minus_def macc_p_minus_p_plus_def
      macc_p_plus_l_plus_p_minus_def macc_p_minus_l_minus_p_plus_def solve_quadratic_def
      Let_def power2_eq_square)

lemma still_no_valid_result:
  "0 < T \<Longrightarrow> minimum_acceleration_interpolants 0 0 0 0 2 T am tm a_margin = Inl NoValidResult"
  by (simp add: minimum_acceleration_interpolants_def still_acc_candidates)

definition line_planner :: "nat \<Rightarrow> ramp_planner" where
  "line_planner iters = init_planner [0, 0] [5, 0] iters (\<lambda>p. True) ([0], [10]) [2] [1]"

definition line_seeded :: "nat \<Rightarrow> ramp_planner" where
  "line_seeded iters = (line_planner iters)
       \<lparr>nodes := [(Node [0, 0] Forward None None None)
                     \<lparr>segment_time := Some 0, trajectory_info := Some [(0, PplusPminus)]\<rparr>,
                  (Node [5, 0] Backward None None None)
                     \<lparr>segment_time := Some 0, trajectory_info := Some [(0, PplusPminus)]\<rparr>,
                  Node [0, 0] Forward None None None,
                  Node [5, 0] Backward None None None],
        forward_tree := [2], backward_tree := [3]\<rparr>"

lemma line_seed: "seed_trees (line_planner iters) = Inr (True, line_seeded iters)"
  by (simp add: seed_trees_def seed_tree_def line_planner_def line_seeded_def init_planner_def node_at_def
        generate_max_braking_trajectory_def dimension_def check_state_limits_def Let_def
        alloc_node_def node_update_def check_edge_collision_def Node_def)

lemma line_segment_fails:
  "compute_optimal_segment (line_seeded iters) [0, 0] [0, 0] = Inl NoValidResult"
proof -
  have d: "dimension (line_seeded iters) = 1" "vmax (line_seeded iters) = [2]"
    "amax (line_seeded iters) = [1]"
    by (simp_all add: dimension_def line_seeded_def line_planner_def init_planner_def)
  have t: "calculate_segment_time (line_seeded iters) [0, 0] [0, 0] default_safe_margin
             = Inr default_safe_margin"
    by (simp add: calculate_segment_time_def d univariate_time_optimal_interpolants_def
        still_time_candidates)
  have "calculate_segment_trajectory (line_seeded iters) [0, 0] [0, 0] default_safe_margin
             = Inl NoValidResult"
    by (simp add: calculate_segment_trajectory_def d still_no_valid_result default_safe_margin_def)
  then show ?thesis by (simp add: compute_optimal_segment_def t)
qed

lemma line_extend_fails:
  "extend_tree (line_seeded iters) Forward k (\<lambda>i. 0) = Inl NoValidResult"
proof -
  have s: "sample_free_space_state (line_seeded iters) (\<lambda>i. 0) = [0, 0]"
    by (simp add: sample_free_space_state_def dimension_def line_seeded_def line_planner_def
        init_planner_def)
  have c: "random_choice k (forward_tree (line_seeded iters)) = Inr 2"
    by (simp add: random_choice_def line_seeded_def)
  have n: "state (node_at (line_seeded iters) 2) = [0, 0]"
    "collision_checker (line_seeded iters) = (\<lambda>p. True)"
    by (simp_all add: node_at_def line_seeded_def Node_def line_planner_def init_planner_def)
  show ?thesis
    by (simp add: extend_tree_def s c n line_segment_fails)
qed

lemma line_plan:
  "plan fsbas its (\<lambda>i. (k, \<lambda>j. 0)) (line_planner (Suc m)) = Inl NoValidResult"
proof -
  have m: "max_iters (line_seeded (Suc m)) = Suc m"
    by (simp add: line_seeded_def line_planner_def init_planner_def)
  show ?thesis
    by (simp add: plan_def line_seed m line_extend_fails)
qed

definition plane_planner :: "nat \<Rightarrow> ramp_planner" where
  "plane_planner iters =
     init_planner [0, 0, 0, 0] [5, 0, 0, 0] iters (\<lambda>p. True) ([0, 0], [10, 0]) [2, 2] [1, 1]"

definition plane_seeded :: "nat \<Rightarrow> ramp_planner" where
  "plane_seeded iters = (plane_planner iters)
       \<lparr>nodes := [(Node [0, 0, 0, 0] Forward None None None)
                     \<lparr>segment_time := Some 0,
                      trajectory_info := Some [(0, PplusPminus), (0, PplusPminus)]\<rparr>,
                  (Node [5, 0, 0, 0] Backward None None None)
                     \<lparr>segment_time := Some 0,
                      trajectory_info := Some [(0, PplusPminus), (0, PplusPminus)]\<rparr>,
                  Node [0, 0, 0, 0] Forward None None None,
                  Node [5, 0, 0, 0] Backward None None None],
        forward_tree := [2], backward_tree := [3]\<rparr>"

lemma upt2: "[0..<2] = [0, 1]"
  by (simp add: upt_rec)

lemma plane_seed: "seed_trees (plane_planner iters) = Inr (True, plane_seeded iters)"
  by (simp add: seed_trees_def seed_tree_def plane_planner_def plane_seeded_def init_planner_def
        node_at_def generate_max_braking_trajectory_def dimension_def check_state_limits_def
        Let_def alloc_node_def node_update_def check_edge_collision_def Node_def upt2)

lemma plane_segment_fails:
  "compute_optimal_segment (plane_seeded iters) [0, 0, 0, 0] [5, 0, 0, 0] = Inl NoValidResult"
proof -
  have d: "dimension (plane_seeded iters) = 2" "vmax (plane_seeded iters) = [2, 2]"
    "amax (plane_seeded iters) = [1, 1]"
    by (simp_all add: dimension_def plane_seeded_def plane_planner_def init_planner_def)
  have t: "calculate_segment_time (plane_seeded iters) [0, 0, 0, 0] [5, 0, 0, 0] default_safe_margin
             = Inr (9 / 2 + default_safe_margin)"
    unfolding calculate_segment_time_def Let_def d upt2
    by (simp add: univariate_time_optimal_interpolants_def
        still_time_candidates scenario_time_candidates)
  have pos: "(0 :: real) < 9 / 2 + default_safe_margin"
    by (simp add: default_safe_margin_def)
  have a0: "minimum_acceleration_interpolants 0 5 0 0 2 (9 / 2 + default_safe_margin) 1
        default_t_margin default_a_margin = Inr (Some (2000000 / 2000001, PplusLplusPminus))"
    by (simp add: minimum_acceleration_interpolants_def scenario_acc_candidates
        default_a_margin_def np_clip_def)
  have "calculate_segment_trajectory (plane_seeded iters) [0, 0, 0, 0] [5, 0, 0, 0]
          (9 / 2 + default_safe_margin) = Inl NoValidResult"
    unfolding calculate_segment_trajectory_def Let_def d upt2
    by (simp add: a0 still_no_valid_result [OF pos])
  then show ?thesis by (simp add: compute_optimal_segment_def t)
qed

lemma plane_extend_fails:
  "extend_tree (plane_seeded iters) Forward k (\<lambda>i. 1 / 2) = Inl NoValidResult"
proof -
  have s: "sample_free_space_state (plane_seeded iters) (\<lambda>i. 1 / 2) = [5, 0, 0, 0]"
    by (simp add: sample_free_space_state_def dimension_def plane_seeded_def plane_planner_def
        init_planner_def upt2 numeral_2_eq_2)
  have c: "random_choice k (forward_tree (plane_seeded iters)) = Inr 2"
    by (simp add: random_choice_def plane_seeded_def)
  have n: "state (node_at (plane_seeded iters) 2) = [0, 0, 0, 0]"
    "collision_checker (plane_seeded iters) = (\<lambda>p. True)"
    by (simp_all add: node_at_def plane_seeded_def Node_def plane_planner_def init_planner_def)
  show ?thesis
    by (simp add: extend_tree_def s c n plane_segment_fails)
qed

lemma plane_plan:
  "plan fsbas its (\<lambda>i. (k, \<lambda>j. 1 / 2)) (plane_planner (Suc m)) = Inl NoValidResult"
proof -
  have m: "max_iters (plane_seeded (Suc m)) = Suc m"
    by (simp add: plane_seeded_def plane_planner_def init_planner_def)
  show ?thesis
    by (simp add: plan_def plane_seed m plane_extend_fails)
qed

text \<open>
  Claim C3 on two inputs.  On one axis with positions in \<open>[0, 10]\<close>, start at 0 and goal at
  5, both at rest, the draw \<open>u = 0\<close> samples the position of the forward root; on two axes
  of which the second has the position range \<open>[0, 0]\<close>, every sample has the second
  coordinate of every node.  In both cases the first call of \<^verbatim>\<open>extend_tree\<close> raises
  \<^verbatim>\<open>ValueError("No valid result")\<close>, and the exception leaves \<^verbatim>\<open>plan\<close>: the result is
  neither a path nor \<^verbatim>\<open>None\<close>, and the loop does not go on to its next round.
\<close>

theorem solver_failure_escapes_plan:
  "plan fsbas its (\<lambda>i. (k, \<lambda>j. 0)) (line_planner (Suc m)) = Inl NoValidResult
   \<and> plan fsbas its (\<lambda>i. (k, \<lambda>j. 1 / 2)) (plane_planner (Suc m)) = Inl NoValidResult"
  using line_plan [of fsbas its k m] plane_plan [of fsbas its k m] by simp

section \<open>Time optimality and existence for motions from rest to rest\<close>

subsection \<open>The candidates of both solvers for zero end velocities\<close>













subsection \<open>Mirror symmetry of the solvers\<close>







lemma np_min_swap: "np_min t (u # ts) = np_min u (t # ts)"
  by (cases ts) (simp_all add: min.commute min.left_commute)







subsection \<open>The selection among the candidates\<close>







subsection \<open>Positive displacement\<close>



subsection \<open>The two properties\<close>























end
